theory Spec2Isabelle
  imports Main "HOL-Library.Sublist"
begin

section \<open>Schema descriptors\<close>

text \<open>
  The descriptor classes come from the protobuf runtime; the generator only reads them
  through getters. Each getter is a field (or selector) of the same name, prefixed by the
  class it belongs to.
\<close>

datatype FieldType =
    TYPE_DOUBLE | TYPE_FLOAT | TYPE_INT64 | TYPE_UINT64 | TYPE_INT32 | TYPE_FIXED64
  | TYPE_FIXED32 | TYPE_BOOL | TYPE_STRING | TYPE_GROUP | TYPE_MESSAGE | TYPE_BYTES
  | TYPE_UINT32 | TYPE_ENUM | TYPE_SFIXED32 | TYPE_SFIXED64 | TYPE_SINT32 | TYPE_SINT64

datatype Label = LABEL_OPTIONAL | LABEL_REQUIRED | LABEL_REPEATED

datatype JSType = JS_NORMAL | JS_STRING | JS_NUMBER

record FieldOptions =
  jstype :: "JSType option"

record MessageOptions =
  mapEntry :: bool

record FieldDescriptorProto =
  fieldName :: string
  fieldType :: FieldType
  fieldTypeName :: string
  fieldLabel :: Label
  fieldOneofIndex :: "int option"
  fieldOptions :: "FieldOptions option"

record EnumDescriptorProto =
  enumName :: string
  enumValueList :: "(string \<times> int) list"

record OneofDescriptorProto =
  oneofName :: string

datatype DescriptorProto =
  DescriptorProto
    (msgName : string)
    (msgOptions : "MessageOptions option")
    (msgFieldList : "FieldDescriptorProto list")
    (msgNestedTypeList : "DescriptorProto list")
    (msgEnumTypeList : "EnumDescriptorProto list")
    (msgOneofDeclList : "OneofDescriptorProto list")
    (msgExtensionList : "FieldDescriptorProto list")

record MethodDescriptorProto =
  mdName :: string
  mdInputType :: string
  mdOutputType :: string
  mdClientStreaming :: bool
  mdServerStreaming :: bool

record ServiceDescriptorProto =
  sdName :: string
  sdMethodList :: "MethodDescriptorProto list"

record FileDescriptorProto =
  fdName :: string
  fdPackage :: string
  fdDependencyList :: "string list"
  fdServiceList :: "ServiceDescriptorProto list"
  fdSyntax :: string

section \<open>The export map\<close>

text \<open>
  An entry of the export map records where a message or an enum is defined; for the
  synthetic entry message of a map field it also records the key and value types, each as
  a pair of wire type and type name. A lookup of a name that was never exported is
  \<open>undefined\<close> in the source and \<open>None\<close> here.
\<close>

record MapFieldOptions =
  mfoKey :: "FieldType \<times> string"
  mfoValue :: "FieldType \<times> string"

record ExportMessageEntry =
  emPkg :: string
  emFileName :: string
  emMessageOptions :: "MessageOptions option"
  emMapFieldOptions :: "MapFieldOptions option"

record ExportEnumEntry =
  eePkg :: string
  eeFileName :: string

record ExportMap =
  getMessage :: "string \<Rightarrow> ExportMessageEntry option"
  getEnum :: "string \<Rightarrow> ExportEnumEntry option"

section \<open>Errors\<close>

text \<open>
  Every throw of the source is a value. \<open>NoMessageExport\<close> and \<open>NoEnumExport\<close> are the
  two \<open>throw new Error\<close> statements of printMessage; \<open>TypeError\<close> is what the runtime
  raises when a property of \<open>undefined\<close> is read (the key of absent map field options,
  the first character of an empty method name); \<open>CollaboratorError\<close> is a throw inside one
  of the helper modules, tagged with the helper's name.
\<close>

datatype error =
    NoMessageExport string
  | NoEnumExport string
  | TypeError
  | CollaboratorError string

section \<open>Helper modules taken as parameters\<close>

text \<open>
  The helper modules (util, FieldTypes, WellKnown, enum, oneof, extensions) are used by the
  two generator files but are not part of them. Their functions are the fields of the
  record below, so that every theorem holds for whatever they compute. The resolvers and
  sub-renderers may throw: they return \<open>None\<close> when they do. \<open>toLowerCase\<close> is the
  string method of the runtime, and \<open>indentUnit\<close> is the text of one indent level.
\<close>

record env =
  filePathToPseudoNamespace :: "string \<Rightarrow> string"
  isProto2 :: "FileDescriptorProto \<Rightarrow> bool"
  withinNamespaceFromExportEntry :: "string \<Rightarrow> ExportMessageEntry + ExportEnumEntry \<Rightarrow> string"
  normaliseFieldObjectName :: "string \<Rightarrow> string"
  replaceProtoSuffix :: "string \<Rightarrow> string"
  getPathToRoot :: "string \<Rightarrow> string"
  getFieldType :: "FieldType \<Rightarrow> string \<Rightarrow> string \<Rightarrow> ExportMap \<Rightarrow> string option"
  getTypeName :: "FieldType \<Rightarrow> string"
  wellKnownTypesMap :: "string \<Rightarrow> string option"
  printEnum :: "EnumDescriptorProto \<Rightarrow> nat \<Rightarrow> string option"
  printOneOfDecl :: "OneofDescriptorProto \<Rightarrow> FieldDescriptorProto list \<Rightarrow> nat \<Rightarrow> string option"
  printExtension :: "string \<Rightarrow> ExportMap \<Rightarrow> FieldDescriptorProto \<Rightarrow> nat \<Rightarrow> string option"
  toLowerCase :: "string \<Rightarrow> string"
  indentUnit :: string

text \<open>
  Modelled from the spec: the wire-type tags of the FieldTypes module, which is not among
  the generator files. The spec names three wire types that the generator tells apart:
  message, byte sequence and enum.
\<close>

definition MESSAGE_TYPE :: FieldType where
  "MESSAGE_TYPE = TYPE_MESSAGE"

definition BYTES_TYPE :: FieldType where
  "BYTES_TYPE = TYPE_BYTES"

definition ENUM_TYPE :: FieldType where
  "ENUM_TYPE = TYPE_ENUM"

definition throwing :: "string \<Rightarrow> 'a option \<Rightarrow> error + 'a" where
  "throwing who r = (case r of None \<Rightarrow> Inl (CollaboratorError who) | Some v \<Rightarrow> Inr v)"

section \<open>The text emitters\<close>

text \<open>
  Modelled from the spec: the Printer and CodePrinter classes, which are not among the
  generator files. The spec describes them as an indentation-scoped, append-only text
  buffer. A Printer is created at an indent level and prefixes every line with that many
  indent units; a CodePrinter wraps a Printer, tracks a depth of its own and prefixes
  every line with that many further units. The unit itself is a parameter.
\<close>

definition nl :: string where
  "nl = [CHR 0x0A]"

definition generateIndent :: "env \<Rightarrow> nat \<Rightarrow> string" where
  "generateIndent env indentLevel = concat (replicate indentLevel (indentUnit env))"

record Printer =
  indentStr :: string
  outputBuf :: string

definition newPrinter :: "env \<Rightarrow> nat \<Rightarrow> Printer" where
  "newPrinter env indentLevel = \<lparr>indentStr = generateIndent env indentLevel, outputBuf = []\<rparr>"

definition printLn :: "Printer \<Rightarrow> string \<Rightarrow> Printer" where
  "printLn p str = p\<lparr>outputBuf := outputBuf p @ indentStr p @ str @ nl\<rparr>"

definition print :: "Printer \<Rightarrow> string \<Rightarrow> Printer" where
  "print p str = p\<lparr>outputBuf := outputBuf p @ str\<rparr>"

definition printEmptyLn :: "Printer \<Rightarrow> Printer" where
  "printEmptyLn p = p\<lparr>outputBuf := outputBuf p @ nl\<rparr>"

definition printIndentedLn :: "env \<Rightarrow> Printer \<Rightarrow> string \<Rightarrow> Printer" where
  "printIndentedLn env p str = p\<lparr>outputBuf := outputBuf p @ indentStr p @ indentUnit env @ str @ nl\<rparr>"

definition getOutput :: "Printer \<Rightarrow> string" where
  "getOutput p = outputBuf p"

record CodePrinter =
  depth :: int
  cpPrinter :: Printer

definition newCodePrinter :: "int \<Rightarrow> Printer \<Rightarrow> CodePrinter" where
  "newCodePrinter d p = \<lparr>depth = d, cpPrinter = p\<rparr>"

definition cpIndent :: "CodePrinter \<Rightarrow> CodePrinter" where
  "cpIndent cp = cp\<lparr>depth := depth cp + 1\<rparr>"

definition cpDedent :: "CodePrinter \<Rightarrow> CodePrinter" where
  "cpDedent cp = cp\<lparr>depth := depth cp - 1\<rparr>"

definition cpPrintLn :: "env \<Rightarrow> CodePrinter \<Rightarrow> string \<Rightarrow> CodePrinter" where
  "cpPrintLn env cp line =
     cp\<lparr>cpPrinter := printLn (cpPrinter cp)
                        (concat (replicate (nat (depth cp)) (indentUnit env)) @ line)\<rparr>"

definition cpPrintEmptyLn :: "CodePrinter \<Rightarrow> CodePrinter" where
  "cpPrintEmptyLn cp = cp\<lparr>cpPrinter := printEmptyLn (cpPrinter cp)\<rparr>"

section \<open>message.ts: printMessage\<close>

definition isMapEntry :: "MessageOptions option \<Rightarrow> bool" where
  "isMapEntry messageOptions =
     (case messageOptions of None \<Rightarrow> False | Some opts \<Rightarrow> mapEntry opts)"

text \<open>
  \<open>oneOfGroups\<close> is a sparse array: a slot that was never written reads as undefined.
\<close>

type_synonym OneOfGroups = "int \<Rightarrow> FieldDescriptorProto list option"

definition pushOneOf :: "OneOfGroups \<Rightarrow> FieldDescriptorProto \<Rightarrow> OneOfGroups" where
  "pushOneOf oneOfGroups field =
     (case fieldOneofIndex field of
        None \<Rightarrow> oneOfGroups
      | Some oneOfIndex \<Rightarrow>
          (let existing = (case oneOfGroups oneOfIndex of None \<Rightarrow> [] | Some g \<Rightarrow> g)
           in oneOfGroups(oneOfIndex \<mapsto> existing @ [field])))"

text \<open>
  What the first half of the loop body leaves behind for the second half: either the body
  has already printed the member of a map field and returned, or it has computed
  \<open>exportType\<close>.
\<close>

datatype resolved = Returned Printer | ExportType string

definition resolveField ::
  "env \<Rightarrow> string \<Rightarrow> ExportMap \<Rightarrow> Printer \<Rightarrow> FieldDescriptorProto \<Rightarrow> error + resolved" where
  "resolveField env fileName exportMap printer field =
     (let type = fieldType field;
          fullTypeName = drop 1 (fieldTypeName field)
      in if type = MESSAGE_TYPE then
           (case getMessage exportMap fullTypeName of
              None \<Rightarrow> Inl (NoMessageExport fullTypeName)
            | Some fieldMessageType \<Rightarrow>
                if isMapEntry (emMessageOptions fieldMessageType) then
                  (case emMapFieldOptions fieldMessageType of
                     None \<Rightarrow> Inl TypeError
                   | Some mapFieldOptions \<Rightarrow>
                       (let keyTuple = mfoKey mapFieldOptions;
                            keyType = fst keyTuple
                        in case throwing ''getFieldType''
                                  (getFieldType env keyType (snd keyTuple) fileName exportMap) of
                             Inl e \<Rightarrow> Inl e
                           | Inr keyTypeName \<Rightarrow>
                               (let valueTuple = mfoValue mapFieldOptions;
                                    valueType = fst valueTuple
                                in case throwing ''getFieldType''
                                          (getFieldType env valueType (snd valueTuple) fileName exportMap) of
                                     Inl e \<Rightarrow> Inl e
                                   | Inr valueTypeName0 \<Rightarrow>
                                       (let valueTypeName =
                                              (if valueType = BYTES_TYPE
                                               then ''Uint8Array | string'' else valueTypeName0)
                                        in Inr (Returned (printIndentedLn env printer
                                              (fieldName field @ '': Map<'' @ keyTypeName @ '', ''
                                                 @ valueTypeName @ ''>;'')))))))
                else
                  (let withinNamespace =
                         withinNamespaceFromExportEntry env fullTypeName (Inl fieldMessageType)
                   in if emFileName fieldMessageType = fileName
                      then Inr (ExportType withinNamespace)
                      else Inr (ExportType
                             (filePathToPseudoNamespace env (emFileName fieldMessageType)
                                @ ''.'' @ withinNamespace))))
         else if type = ENUM_TYPE then
           (case getEnum exportMap fullTypeName of
              None \<Rightarrow> Inl (NoEnumExport fullTypeName)
            | Some fieldEnumType \<Rightarrow>
                (let withinNamespace =
                       withinNamespaceFromExportEntry env fullTypeName (Inr fieldEnumType)
                 in if eeFileName fieldEnumType = fileName
                    then Inr (ExportType withinNamespace)
                    else Inr (ExportType
                           (filePathToPseudoNamespace env (eeFileName fieldEnumType)
                              @ ''.'' @ withinNamespace))))
         else
           (case fieldOptions field of
              None \<Rightarrow> Inr (ExportType (getTypeName env type))
            | Some opts \<Rightarrow>
                (case jstype opts of
                   None \<Rightarrow> Inr (ExportType (getTypeName env type))
                 | Some JS_NUMBER \<Rightarrow> Inr (ExportType ''number'')
                 | Some JS_STRING \<Rightarrow> Inr (ExportType ''string'')
                 | Some JS_NORMAL \<Rightarrow> Inr (ExportType (getTypeName env type)))))"

definition printMember ::
  "env \<Rightarrow> FileDescriptorProto \<Rightarrow> Printer \<Rightarrow> FieldDescriptorProto \<Rightarrow> string \<Rightarrow> Printer" where
  "printMember env fileDescriptor printer field exportType =
     (let type = fieldType field
      in if fieldLabel field = LABEL_REPEATED then
           (if type = BYTES_TYPE
            then printIndentedLn env printer (fieldName field @ '': Array<Uint8Array | string>;'')
            else printIndentedLn env printer (fieldName field @ '': Array<'' @ exportType @ ''>;''))
         else
           (if type = BYTES_TYPE
            then printIndentedLn env printer (fieldName field @ '': Uint8Array | string;'')
            else
              (let fieldObjectType = exportType;
                   canBeUndefined =
                     (if type = MESSAGE_TYPE
                      then (\<not> isProto2 env fileDescriptor \<or> fieldLabel field = LABEL_OPTIONAL)
                      else isProto2 env fileDescriptor);
                   fieldObjectName = normaliseFieldObjectName env (fieldName field)
               in printIndentedLn env printer
                    (fieldObjectName @ (if canBeUndefined then ''?'' else '''') @ '': ''
                       @ fieldObjectType @ '';''))))"

definition printField ::
  "env \<Rightarrow> string \<Rightarrow> ExportMap \<Rightarrow> FileDescriptorProto \<Rightarrow> Printer \<Rightarrow> FieldDescriptorProto
     \<Rightarrow> error + Printer" where
  "printField env fileName exportMap fileDescriptor printer field =
     (case resolveField env fileName exportMap printer field of
        Inl e \<Rightarrow> Inl e
      | Inr (Returned printer') \<Rightarrow> Inr printer'
      | Inr (ExportType exportType) \<Rightarrow>
          Inr (printMember env fileDescriptor printer field exportType))"

fun printFields ::
  "env \<Rightarrow> string \<Rightarrow> ExportMap \<Rightarrow> FileDescriptorProto \<Rightarrow> OneOfGroups \<times> Printer
     \<Rightarrow> FieldDescriptorProto list \<Rightarrow> error + OneOfGroups \<times> Printer" where
  "printFields env fileName exportMap fileDescriptor st [] = Inr st"
| "printFields env fileName exportMap fileDescriptor st (field # rest) =
     (case printField env fileName exportMap fileDescriptor (snd st) field of
        Inl e \<Rightarrow> Inl e
      | Inr printer' \<Rightarrow>
          printFields env fileName exportMap fileDescriptor
            (pushOneOf (fst st) field, printer') rest)"

fun printEnums :: "env \<Rightarrow> nat \<Rightarrow> Printer \<Rightarrow> EnumDescriptorProto list \<Rightarrow> error + Printer" where
  "printEnums env indentLevel printer [] = Inr printer"
| "printEnums env indentLevel printer (enumType # enumTypes) =
     (case throwing ''printEnum'' (printEnum env enumType (indentLevel + 1)) of
        Inl e \<Rightarrow> Inl e
      | Inr str \<Rightarrow> printEnums env indentLevel (print printer str) enumTypes)"

fun printOneOfDecls ::
  "env \<Rightarrow> nat \<Rightarrow> OneOfGroups \<Rightarrow> int \<Rightarrow> Printer \<Rightarrow> OneofDescriptorProto list \<Rightarrow> error + Printer" where
  "printOneOfDecls env indentLevel oneOfGroups index printer [] = Inr printer"
| "printOneOfDecls env indentLevel oneOfGroups index printer (oneOfDecl # oneOfDecls) =
     (case throwing ''printOneOfDecl''
             (printOneOfDecl env oneOfDecl
                (case oneOfGroups index of None \<Rightarrow> [] | Some g \<Rightarrow> g) (indentLevel + 1)) of
        Inl e \<Rightarrow> Inl e
      | Inr str \<Rightarrow>
          printOneOfDecls env indentLevel oneOfGroups (index + 1) (print printer str) oneOfDecls)"

fun printExtensions ::
  "env \<Rightarrow> string \<Rightarrow> ExportMap \<Rightarrow> nat \<Rightarrow> Printer \<Rightarrow> FieldDescriptorProto list \<Rightarrow> error + Printer" where
  "printExtensions env fileName exportMap indentLevel printer [] = Inr printer"
| "printExtensions env fileName exportMap indentLevel printer (extension # extensions) =
     (case throwing ''printExtension''
             (printExtension env fileName exportMap extension (indentLevel + 1)) of
        Inl e \<Rightarrow> Inl e
      | Inr str \<Rightarrow>
          printExtensions env fileName exportMap indentLevel (print printer str) extensions)"

fun printMessage ::
  "env \<Rightarrow> string \<Rightarrow> ExportMap \<Rightarrow> DescriptorProto \<Rightarrow> nat \<Rightarrow> FileDescriptorProto \<Rightarrow> error + string"
and printNested ::
  "env \<Rightarrow> string \<Rightarrow> ExportMap \<Rightarrow> nat \<Rightarrow> FileDescriptorProto \<Rightarrow> Printer
     \<Rightarrow> DescriptorProto list \<Rightarrow> error + Printer" where
  "printMessage env fileName exportMap
       (DescriptorProto messageName messageOptions fieldList nestedTypeList enumTypeList
          oneofDeclList extensionList)
       indentLevel fileDescriptor =
     (if isMapEntry messageOptions then Inr []
      else
        (case printFields env fileName exportMap fileDescriptor
                (Map.empty,
                 printLn (newPrinter env indentLevel) (''export class '' @ messageName @ '' {''))
                fieldList of
           Inl e \<Rightarrow> Inl e
         | Inr st \<Rightarrow>
             (case printNested env fileName exportMap indentLevel fileDescriptor (snd st)
                     nestedTypeList of
                Inl e \<Rightarrow> Inl e
              | Inr p1 \<Rightarrow>
                  (case printEnums env indentLevel p1 enumTypeList of
                     Inl e \<Rightarrow> Inl e
                   | Inr p2 \<Rightarrow>
                       (case printOneOfDecls env indentLevel (fst st) 0 p2 oneofDeclList of
                          Inl e \<Rightarrow> Inl e
                        | Inr p3 \<Rightarrow>
                            (case printExtensions env fileName exportMap indentLevel p3
                                    extensionList of
                               Inl e \<Rightarrow> Inl e
                             | Inr p4 \<Rightarrow> Inr (getOutput (printLn p4 ''}''))))))))"
| "printNested env fileName exportMap indentLevel fileDescriptor printer [] = Inr printer"
| "printNested env fileName exportMap indentLevel fileDescriptor printer (nested # rest) =
     (case printMessage env fileName exportMap nested (indentLevel + 1) fileDescriptor of
        Inl e \<Rightarrow> Inl e
      | Inr msgOutput \<Rightarrow>
          printNested env fileName exportMap indentLevel fileDescriptor
            (if msgOutput \<noteq> [] then print printer msgOutput else printer) rest)"

section \<open>jsonrpc.ts: the service view\<close>

record CallingTypes =
  ctRequestType :: string
  ctResponseType :: string

definition getCallingTypes :: "env \<Rightarrow> MethodDescriptorProto \<Rightarrow> ExportMap \<Rightarrow> error + CallingTypes" where
  "getCallingTypes env method exportMap =
     (case throwing ''getFieldType''
             (getFieldType env MESSAGE_TYPE (drop 1 (mdInputType method)) [] exportMap) of
        Inl e \<Rightarrow> Inl e
      | Inr req \<Rightarrow>
          (case throwing ''getFieldType''
                  (getFieldType env MESSAGE_TYPE (drop 1 (mdOutputType method)) [] exportMap) of
             Inl e \<Rightarrow> Inl e
           | Inr resp \<Rightarrow> Inr \<lparr>ctRequestType = req, ctResponseType = resp\<rparr>))"

text \<open>
  \<open>Array.prototype.some\<close> stops at the first element that satisfies the callback, so the
  calling types of the methods after it are never computed and cannot throw.
\<close>

fun someMethod :: "env \<Rightarrow> string \<Rightarrow> ExportMap \<Rightarrow> MethodDescriptorProto list \<Rightarrow> error + bool" where
  "someMethod env pseudoNamespace exportMap [] = Inr False"
| "someMethod env pseudoNamespace exportMap (method # rest) =
     (case getCallingTypes env method exportMap of
        Inl e \<Rightarrow> Inl e
      | Inr callingTypes \<Rightarrow>
          (let namespacePackage = pseudoNamespace @ ''.''
           in if prefix namespacePackage (ctRequestType callingTypes)
                 \<or> prefix namespacePackage (ctResponseType callingTypes)
              then Inr True
              else someMethod env pseudoNamespace exportMap rest))"

fun someService :: "env \<Rightarrow> string \<Rightarrow> ExportMap \<Rightarrow> ServiceDescriptorProto list \<Rightarrow> error + bool" where
  "someService env pseudoNamespace exportMap [] = Inr False"
| "someService env pseudoNamespace exportMap (service # rest) =
     (case someMethod env pseudoNamespace exportMap (sdMethodList service) of
        Inl e \<Rightarrow> Inl e
      | Inr found \<Rightarrow>
          if found then Inr True else someService env pseudoNamespace exportMap rest)"

definition isUsed :: "env \<Rightarrow> FileDescriptorProto \<Rightarrow> string \<Rightarrow> ExportMap \<Rightarrow> error + bool" where
  "isUsed env fileDescriptor pseudoNamespace exportMap =
     someService env pseudoNamespace exportMap (fdServiceList fileDescriptor)"

record ImportDescriptor =
  impNamespace :: string
  impPath :: string

record RPCMethodDescriptor =
  nameAsPascalCase :: string
  nameAsCamelCase :: string
  functionName :: string
  serviceName :: string
  requestStream :: bool
  responseStream :: bool
  requestType :: string
  responseType :: string

record RPCDescriptor =
  rdProtoService :: ServiceDescriptorProto
  rdExportMap :: ExportMap

definition rdName :: "RPCDescriptor \<Rightarrow> string" where
  "rdName d = sdName (rdProtoService d)"

text \<open>
  The callback of the \<open>methods\<close> getter. Reading the first character of an empty method
  name gives \<open>undefined\<close>, and calling \<open>toLowerCase\<close> on it raises a TypeError.
\<close>

definition methodView :: "env \<Rightarrow> RPCDescriptor \<Rightarrow> MethodDescriptorProto \<Rightarrow> error + RPCMethodDescriptor" where
  "methodView env d method =
     (case getCallingTypes env method (rdExportMap d) of
        Inl e \<Rightarrow> Inl e
      | Inr callingTypes \<Rightarrow>
          (case mdName method of
             [] \<Rightarrow> Inl TypeError
           | c # cs \<Rightarrow>
               Inr \<lparr>nameAsPascalCase = mdName method,
                    nameAsCamelCase = toLowerCase env [c] @ drop 1 (mdName method),
                    functionName = normaliseFieldObjectName env (mdName method),
                    serviceName = rdName d,
                    requestStream = mdClientStreaming method,
                    responseStream = mdServerStreaming method,
                    requestType = ctRequestType callingTypes,
                    responseType = ctResponseType callingTypes\<rparr>))"

fun methodViews :: "env \<Rightarrow> RPCDescriptor \<Rightarrow> MethodDescriptorProto list \<Rightarrow> error + RPCMethodDescriptor list" where
  "methodViews env d [] = Inr []"
| "methodViews env d (method # rest) =
     (case methodView env d method of
        Inl e \<Rightarrow> Inl e
      | Inr m \<Rightarrow>
          (case methodViews env d rest of
             Inl e \<Rightarrow> Inl e
           | Inr ms \<Rightarrow> Inr (m # ms)))"

definition rdMethods :: "env \<Rightarrow> RPCDescriptor \<Rightarrow> error + RPCMethodDescriptor list" where
  "rdMethods env d = methodViews env d (sdMethodList (rdProtoService d))"

record RPCServiceDescriptor =
  rsFileDescriptor :: FileDescriptorProto
  rsExportMap :: ExportMap
  rsPathToRoot :: string

definition newRPCServiceDescriptor :: "env \<Rightarrow> FileDescriptorProto \<Rightarrow> ExportMap \<Rightarrow> RPCServiceDescriptor" where
  "newRPCServiceDescriptor env fileDescriptor exportMap =
     \<lparr>rsFileDescriptor = fileDescriptor, rsExportMap = exportMap,
      rsPathToRoot = getPathToRoot env (fdName fileDescriptor)\<rparr>"

definition rsFilename :: "RPCServiceDescriptor \<Rightarrow> string" where
  "rsFilename sd = fdName (rsFileDescriptor sd)"

definition rsPackageName :: "RPCServiceDescriptor \<Rightarrow> string" where
  "rsPackageName sd = fdPackage (rsFileDescriptor sd)"

fun filterUsed :: "env \<Rightarrow> RPCServiceDescriptor \<Rightarrow> string list \<Rightarrow> error + string list" where
  "filterUsed env sd [] = Inr []"
| "filterUsed env sd (dependency # rest) =
     (case isUsed env (rsFileDescriptor sd) (filePathToPseudoNamespace env dependency)
             (rsExportMap sd) of
        Inl e \<Rightarrow> Inl e
      | Inr used \<Rightarrow>
          (case filterUsed env sd rest of
             Inl e \<Rightarrow> Inl e
           | Inr deps \<Rightarrow> Inr (if used then dependency # deps else deps)))"

definition dependencyImport :: "env \<Rightarrow> RPCServiceDescriptor \<Rightarrow> string \<Rightarrow> ImportDescriptor" where
  "dependencyImport env sd dependency =
     (let namespace = filePathToPseudoNamespace env dependency
      in case wellKnownTypesMap env dependency of
           Some wellKnownPath \<Rightarrow> \<lparr>impNamespace = namespace, impPath = wellKnownPath\<rparr>
         | None \<Rightarrow>
             \<lparr>impNamespace = namespace,
              impPath = rsPathToRoot sd
                          @ replaceProtoSuffix env (replaceProtoSuffix env dependency)\<rparr>)"

definition hostProto :: "env \<Rightarrow> RPCServiceDescriptor \<Rightarrow> ImportDescriptor" where
  "hostProto env sd =
     \<lparr>impNamespace = filePathToPseudoNamespace env (rsFilename sd),
      impPath = rsPathToRoot sd @ replaceProtoSuffix env (rsFilename sd)\<rparr>"

definition rsImports :: "env \<Rightarrow> RPCServiceDescriptor \<Rightarrow> error + ImportDescriptor list" where
  "rsImports env sd =
     (case filterUsed env sd (fdDependencyList (rsFileDescriptor sd)) of
        Inl e \<Rightarrow> Inl e
      | Inr dependencies \<Rightarrow>
          Inr ([hostProto env sd] @ map (dependencyImport env sd) dependencies))"

definition rsServices :: "RPCServiceDescriptor \<Rightarrow> RPCDescriptor list" where
  "rsServices sd =
     map (\<lambda>service. \<lparr>rdProtoService = service, rdExportMap = rsExportMap sd\<rparr>)
       (fdServiceList (rsFileDescriptor sd))"

section \<open>jsonrpc.ts: the service emitter\<close>

definition printUnaryStubMethodTypes ::
  "env \<Rightarrow> CodePrinter \<Rightarrow> RPCDescriptor \<Rightarrow> RPCMethodDescriptor \<Rightarrow> CodePrinter" where
  \<open>printUnaryStubMethodTypes env printer service method =
     (let p = cpPrintLn env printer (functionName method @ ''('');
          p = cpIndent p;
          p = cpPrintLn env p (''requestMessage: '' @ requestType method @ '','');
          p = cpPrintLn env p
                (''options?: {[key: string]: string}): Observable<'' @ responseType method @ ''> {'');
          p = cpPrintLn env p
                (''let rpcRequest = <JsonRPCRequest>{"id": "1", "method": "'' @ rdName service
                   @ ''.'' @ nameAsPascalCase method
                   @ ''", "params": requestMessage, "jsonrpc": "2.0"};'');
          p = cpPrintLn env p
                (''return this.call<'' @ responseType method
                   @ ''>(`${this.serviceHost}/rpc`, rpcRequest, options);'');
          p = cpDedent p;
          p = cpPrintLn env p ''}''
      in cpPrintEmptyLn p)\<close>

definition printUnaryStubBatchMethodTypes ::
  "env \<Rightarrow> CodePrinter \<Rightarrow> RPCDescriptor \<Rightarrow> RPCMethodDescriptor \<Rightarrow> CodePrinter" where
  \<open>printUnaryStubBatchMethodTypes env printer service method =
     (let p = cpPrintLn env printer (functionName method @ ''Batch('');
          p = cpIndent p;
          p = cpPrintLn env p (''requestMessages: '' @ requestType method @ ''[],'');
          p = cpPrintLn env p
                (''options?: {[key: string]: string}): Observable<'' @ responseType method @ ''[]> {'');
          p = cpPrintLn env p
                (''let rpcRequests = requestMessages.map((r) => {return <JsonRPCRequest>{"id": "1", "method": "''
                   @ rdName service @ ''.'' @ nameAsPascalCase method
                   @ ''", "params": r, "jsonrpc": "2.0"};});'');
          p = cpPrintLn env p
                (''return this.callBatch<'' @ responseType method
                   @ ''[]>(`${this.serviceHost}/rpc`, rpcRequests, options);'');
          p = cpDedent p;
          p = cpPrintLn env p ''}''
      in cpPrintEmptyLn p)\<close>

definition printClientHead :: "env \<Rightarrow> CodePrinter \<Rightarrow> CodePrinter" where
  \<open>printClientHead env printer =
     (let p = cpPrintLn env printer ''export class Client {'';
          p = cpIndent p;
          p = cpPrintLn env p ''private serviceHost: string;'';
          p = cpPrintEmptyLn p;
          p = cpPrintLn env p ''constructor(serviceHost: string, private http: HttpClient) {'';
          p = cpIndent p;
          p = cpPrintLn env p ''this.serviceHost = serviceHost;'';
          p = cpDedent p;
          p = cpPrintLn env p ''}'';
          p = cpPrintEmptyLn p;
          p = cpPrintLn env p
                ''call<T>(url: string, request: any, options?: {[key: string]: string}): Observable<T> {'';
          p = cpIndent p;
          p = cpPrintLn env p
                ''return this.http.post<JsonRPCResponse>(url, request, options).pipe(map(response => { return response.result; }), catchError(error => { return throwError(error); }));'';
          p = cpDedent p;
          p = cpPrintLn env p ''}'';
          p = cpPrintEmptyLn p;
          p = cpPrintLn env p
                ''callBatch<T>(url: string, request: any, options?: {[key: string]: string}): Observable<T> {'';
          p = cpIndent p;
          p = cpPrintLn env p ''// @ts-ignore'';
          p = cpPrintLn env p
                ''return this.http.post<JsonRPCResponse[]>(url, request, options).pipe(map(response => { return response.map((r) => { return <T>r.result; }) }), catchError(error => { return throwError(error); }));'';
          p = cpDedent p;
          p = cpPrintLn env p ''}''
      in cpPrintEmptyLn p)\<close>

definition printStubsOfMethod ::
  "env \<Rightarrow> RPCDescriptor \<Rightarrow> CodePrinter \<Rightarrow> RPCMethodDescriptor \<Rightarrow> CodePrinter" where
  "printStubsOfMethod env service printer method =
     (if \<not> requestStream method \<and> \<not> responseStream method
      then printUnaryStubBatchMethodTypes env
             (printUnaryStubMethodTypes env printer service method) service method
      else printer)"

definition printServiceStubTypes :: "env \<Rightarrow> Printer \<Rightarrow> RPCDescriptor \<Rightarrow> error + Printer" where
  "printServiceStubTypes env methodPrinter service =
     (let printer = printClientHead env (newCodePrinter 1 methodPrinter)
      in case rdMethods env service of
           Inl e \<Rightarrow> Inl e
         | Inr methods \<Rightarrow>
             (let p = foldl (printStubsOfMethod env service) printer methods;
                  p = cpDedent p;
                  p = cpPrintLn env p ''}''
              in Inr (cpPrinter p)))"

definition printMethodType :: "env \<Rightarrow> CodePrinter \<Rightarrow> RPCMethodDescriptor \<Rightarrow> CodePrinter" where
  "printMethodType env printer method =
     (let p = cpPrintLn env printer
                (''type '' @ serviceName method @ nameAsPascalCase method @ '' = {'');
          p = cpIndent p;
          p = cpPrintLn env p ''readonly methodName: string;'';
          p = cpPrintLn env p (''readonly service: typeof '' @ serviceName method @ '';'');
          p = cpPrintLn env p (''readonly requestType: typeof '' @ requestType method @ '';'');
          p = cpPrintLn env p (''readonly responseType: typeof '' @ responseType method @ '';'');
          p = cpDedent p;
          p = cpPrintLn env p ''};''
      in cpPrintEmptyLn p)"

definition printMethodStatic :: "env \<Rightarrow> CodePrinter \<Rightarrow> RPCMethodDescriptor \<Rightarrow> CodePrinter" where
  "printMethodStatic env printer method =
     cpPrintLn env printer
       (''static readonly '' @ nameAsPascalCase method @ '': '' @ serviceName method
          @ nameAsPascalCase method @ '';'')"

text \<open>
  The body of the first loop over the services. The \<open>methods\<close> getter is read twice and
  recomputes its result each time.
\<close>

definition printServiceTypes :: "env \<Rightarrow> CodePrinter \<Rightarrow> RPCDescriptor \<Rightarrow> error + CodePrinter" where
  "printServiceTypes env printer service =
     (case rdMethods env service of
        Inl e \<Rightarrow> Inl e
      | Inr methods \<Rightarrow>
          (let p = foldl (printMethodType env) printer methods;
               p = cpPrintLn env p (''class '' @ rdName service @ '' {'');
               p = cpIndent p;
               p = cpPrintLn env p ''static readonly serviceName: string;''
           in case rdMethods env service of
                Inl e \<Rightarrow> Inl e
              | Inr methods' \<Rightarrow>
                  (let p = foldl (printMethodStatic env) p methods';
                       p = cpDedent p;
                       p = cpPrintLn env p ''}''
                   in Inr (cpPrintEmptyLn p))))"

fun printServices :: "env \<Rightarrow> CodePrinter \<Rightarrow> RPCDescriptor list \<Rightarrow> error + CodePrinter" where
  "printServices env printer [] = Inr printer"
| "printServices env printer (service # rest) =
     (case printServiceTypes env printer service of
        Inl e \<Rightarrow> Inl e
      | Inr p \<Rightarrow> printServices env p rest)"

text \<open>
  The second loop over the services. The stub printer writes through a CodePrinter of its
  own, at depth 1, into the Printer that the outer CodePrinter also writes into.
\<close>

fun printStubs :: "env \<Rightarrow> CodePrinter \<Rightarrow> RPCDescriptor list \<Rightarrow> error + CodePrinter" where
  "printStubs env printer [] = Inr printer"
| "printStubs env printer (service # rest) =
     (case printServiceStubTypes env (cpPrinter printer) service of
        Inl e \<Rightarrow> Inl e
      | Inr outPrinter \<Rightarrow>
          printStubs env (cpPrintEmptyLn (printer\<lparr>cpPrinter := outPrinter\<rparr>)) rest)"

definition printHeader :: "env \<Rightarrow> CodePrinter \<Rightarrow> RPCServiceDescriptor \<Rightarrow> CodePrinter" where
  "printHeader env printer serviceDescriptor =
     (let p = cpPrintLn env printer (''// package: '' @ rsPackageName serviceDescriptor);
          p = cpPrintLn env p (''// file: '' @ rsFilename serviceDescriptor)
      in cpPrintEmptyLn p)"

definition printImport :: "env \<Rightarrow> CodePrinter \<Rightarrow> ImportDescriptor \<Rightarrow> CodePrinter" where
  \<open>printImport env printer importDescriptor =
     cpPrintLn env printer
       (''import * as '' @ impNamespace importDescriptor @ '' from "''
          @ impPath importDescriptor @ ''";'')\<close>

definition printLibraryImports :: "env \<Rightarrow> CodePrinter \<Rightarrow> CodePrinter" where
  \<open>printLibraryImports env printer =
     (let p = cpPrintLn env printer ''import {HttpClient} from "@angular/common/http";'';
          p = cpPrintLn env p ''import {Observable, throwError} from "rxjs";'';
          p = cpPrintLn env p ''import {catchError, map} from "rxjs/operators";''
      in cpPrintEmptyLn p)\<close>

definition printEnvelopes :: "env \<Rightarrow> CodePrinter \<Rightarrow> CodePrinter" where
  "printEnvelopes env printer =
     (let p = cpPrintLn env printer ''class JsonRPCRequest {'';
          p = cpIndent p;
          p = cpPrintLn env p ''public jsonrpc: string;'';
          p = cpPrintLn env p ''public id: string;'';
          p = cpPrintLn env p ''public method: string;'';
          p = cpPrintLn env p ''public params: any;'';
          p = cpDedent p;
          p = cpPrintLn env p ''}'';
          p = cpPrintEmptyLn p;
          p = cpPrintLn env p ''type JsonRPCResponse = {'';
          p = cpIndent p;
          p = cpPrintLn env p ''readonly result: any;'';
          p = cpPrintLn env p ''readonly id: string;'';
          p = cpPrintLn env p ''readonly jsonrpc: string;'';
          p = cpDedent p;
          p = cpPrintLn env p ''}''
      in cpPrintEmptyLn p)"

definition generateTypescriptDefinition ::
  "env \<Rightarrow> FileDescriptorProto \<Rightarrow> ExportMap \<Rightarrow> error + string" where
  "generateTypescriptDefinition env fileDescriptor exportMap =
     (let serviceDescriptor = newRPCServiceDescriptor env fileDescriptor exportMap;
          outPrinter = newPrinter env 0;
          printer = printHeader env (newCodePrinter 0 outPrinter) serviceDescriptor
      in case rsServices serviceDescriptor of
           [] \<Rightarrow> Inr (getOutput (cpPrinter printer))
         | first # others \<Rightarrow>
             (case rsImports env serviceDescriptor of
                Inl e \<Rightarrow> Inl e
              | Inr imports \<Rightarrow>
                  (let p = foldl (printImport env) printer imports;
                       p = printLibraryImports env p;
                       p = cpPrintLn env p (''export namespace '' @ rdName first @ '' {'');
                       p = cpIndent p;
                       p = printEnvelopes env p
                   in case printServices env p (rsServices serviceDescriptor) of
                        Inl e \<Rightarrow> Inl e
                      | Inr p1 \<Rightarrow>
                          (case printStubs env p1 (rsServices serviceDescriptor) of
                             Inl e \<Rightarrow> Inl e
                           | Inr p2 \<Rightarrow>
                               Inr (getOutput (cpPrinter (cpPrintLn env (cpDedent p2) ''}'')))))))"

definition generateJSONRPCService ::
  "env \<Rightarrow> string \<Rightarrow> FileDescriptorProto \<Rightarrow> ExportMap \<Rightarrow> error + (string \<times> string) list" where
  "generateJSONRPCService env filename descriptor exportMap =
     (case generateTypescriptDefinition env descriptor exportMap of
        Inl e \<Rightarrow> Inl e
      | Inr content \<Rightarrow> Inr [(filename @ ''_service.ts'', content)])"

section \<open>Namespaces referenced by a file\<close>

text \<open>
  A method references a pseudo-namespace when one of its two calling types is the
  namespace, a dot and more. A file references it when a method of one of its services
  does.
\<close>

definition methodReferences :: "env \<Rightarrow> ExportMap \<Rightarrow> string \<Rightarrow> MethodDescriptorProto \<Rightarrow> bool" where
  "methodReferences env exportMap pseudoNamespace method =
     (case getCallingTypes env method exportMap of
        Inl e \<Rightarrow> False
      | Inr callingTypes \<Rightarrow>
          prefix (pseudoNamespace @ ''.'') (ctRequestType callingTypes)
          \<or> prefix (pseudoNamespace @ ''.'') (ctResponseType callingTypes))"

definition referencesNamespace :: "env \<Rightarrow> ExportMap \<Rightarrow> FileDescriptorProto \<Rightarrow> string \<Rightarrow> bool" where
  "referencesNamespace env exportMap fileDescriptor pseudoNamespace =
     list_ex (\<lambda>service. list_ex (methodReferences env exportMap pseudoNamespace) (sdMethodList service))
       (fdServiceList fileDescriptor)"

definition callingTypesResolve :: "env \<Rightarrow> ExportMap \<Rightarrow> FileDescriptorProto \<Rightarrow> bool" where
  "callingTypesResolve env exportMap fileDescriptor =
     list_all (\<lambda>service.
         list_all (\<lambda>method. case getCallingTypes env method exportMap of
                               Inl e \<Rightarrow> False | Inr callingTypes \<Rightarrow> True)
           (sdMethodList service))
       (fdServiceList fileDescriptor)"

section \<open>The text of the emitted blocks\<close>

text \<open>
  A line written through a CodePrinter at depth \<open>d\<close> into a Printer whose indent is
  \<open>indent\<close>, and the text of the two stubs of a method written as the lines the source
  prints. The other blocks are the text that their printing function writes into an empty
  buffer.
\<close>

definition codeLine :: "env \<Rightarrow> string \<Rightarrow> int \<Rightarrow> string \<Rightarrow> string" where
  "codeLine env indent d s = indent @ concat (replicate (nat d) (indentUnit env)) @ s @ nl"

definition emit :: "CodePrinter \<Rightarrow> string \<Rightarrow> CodePrinter" where
  "emit cp text = cp\<lparr>cpPrinter := (cpPrinter cp)\<lparr>outputBuf := outputBuf (cpPrinter cp) @ text\<rparr>\<rparr>"

definition unaryStubText ::
  "env \<Rightarrow> string \<Rightarrow> int \<Rightarrow> string \<Rightarrow> string \<Rightarrow> string \<Rightarrow> string \<Rightarrow> string \<Rightarrow> string" where
  \<open>unaryStubText env indent d fname svc meth req resp =
     codeLine env indent d (fname @ ''('')
     @ codeLine env indent (d + 1) (''requestMessage: '' @ req @ '','')
     @ codeLine env indent (d + 1)
         (''options?: {[key: string]: string}): Observable<'' @ resp @ ''> {'')
     @ codeLine env indent (d + 1)
         (''let rpcRequest = <JsonRPCRequest>{"id": "1", "method": "'' @ svc @ ''.'' @ meth
            @ ''", "params": requestMessage, "jsonrpc": "2.0"};'')
     @ codeLine env indent (d + 1)
         (''return this.call<'' @ resp @ ''>(`${this.serviceHost}/rpc`, rpcRequest, options);'')
     @ codeLine env indent d ''}''
     @ nl\<close>

definition batchStubText ::
  "env \<Rightarrow> string \<Rightarrow> int \<Rightarrow> string \<Rightarrow> string \<Rightarrow> string \<Rightarrow> string \<Rightarrow> string \<Rightarrow> string" where
  \<open>batchStubText env indent d fname svc meth req resp =
     codeLine env indent d (fname @ ''Batch('')
     @ codeLine env indent (d + 1) (''requestMessages: '' @ req @ ''[],'')
     @ codeLine env indent (d + 1)
         (''options?: {[key: string]: string}): Observable<'' @ resp @ ''[]> {'')
     @ codeLine env indent (d + 1)
         (''let rpcRequests = requestMessages.map((r) => {return <JsonRPCRequest>{"id": "1", "method": "''
            @ svc @ ''.'' @ meth @ ''", "params": r, "jsonrpc": "2.0"};});'')
     @ codeLine env indent (d + 1)
         (''return this.callBatch<'' @ resp @ ''[]>(`${this.serviceHost}/rpc`, rpcRequests, options);'')
     @ codeLine env indent d ''}''
     @ nl\<close>

definition clientHeadText :: "env \<Rightarrow> string \<Rightarrow> int \<Rightarrow> string" where
  "clientHeadText env indent d =
     outputBuf (cpPrinter (printClientHead env
       (newCodePrinter d \<lparr>indentStr = indent, outputBuf = []\<rparr>)))"

definition nonStreaming :: "RPCMethodDescriptor \<Rightarrow> bool" where
  "nonStreaming method = (\<not> requestStream method \<and> \<not> responseStream method)"

definition stubsText :: "env \<Rightarrow> string \<Rightarrow> int \<Rightarrow> string \<Rightarrow> RPCMethodDescriptor \<Rightarrow> string" where
  "stubsText env indent d svc method =
     unaryStubText env indent d (functionName method) svc (nameAsPascalCase method)
       (requestType method) (responseType method)
     @ batchStubText env indent d (functionName method) svc (nameAsPascalCase method)
         (requestType method) (responseType method)"

definition methodTypeText :: "env \<Rightarrow> string \<Rightarrow> int \<Rightarrow> RPCMethodDescriptor \<Rightarrow> string" where
  "methodTypeText env indent d method =
     outputBuf (cpPrinter (printMethodType env
       (newCodePrinter d \<lparr>indentStr = indent, outputBuf = []\<rparr>) method))"

definition methodStaticText :: "env \<Rightarrow> string \<Rightarrow> int \<Rightarrow> RPCMethodDescriptor \<Rightarrow> string" where
  "methodStaticText env indent d method =
     outputBuf (cpPrinter (printMethodStatic env
       (newCodePrinter d \<lparr>indentStr = indent, outputBuf = []\<rparr>) method))"

definition serviceTypesText ::
  "env \<Rightarrow> string \<Rightarrow> int \<Rightarrow> string \<Rightarrow> RPCMethodDescriptor list \<Rightarrow> string" where
  "serviceTypesText env indent d svc methods =
     concat (map (methodTypeText env indent d) methods)
     @ codeLine env indent d (''class '' @ svc @ '' {'')
     @ codeLine env indent (d + 1) ''static readonly serviceName: string;''
     @ concat (map (methodStaticText env indent (d + 1)) methods)
     @ codeLine env indent d ''}''
     @ nl"

definition clientStubText :: "env \<Rightarrow> string \<Rightarrow> string \<Rightarrow> RPCMethodDescriptor list \<Rightarrow> string" where
  "clientStubText env indent svc methods =
     clientHeadText env indent 1
     @ concat (map (stubsText env indent 2 svc) (filter nonStreaming methods))
     @ codeLine env indent 1 ''}''"

definition importLine :: "env \<Rightarrow> ImportDescriptor \<Rightarrow> string" where
  \<open>importLine env importDescriptor =
     codeLine env [] 0
       (''import * as '' @ impNamespace importDescriptor @ '' from "''
          @ impPath importDescriptor @ ''";'')\<close>

definition libraryImportsText :: "env \<Rightarrow> string" where
  "libraryImportsText env =
     outputBuf (cpPrinter (printLibraryImports env (newCodePrinter 0 (newPrinter env 0))))"

definition envelopesText :: "env \<Rightarrow> string" where
  "envelopesText env =
     outputBuf (cpPrinter (printEnvelopes env (newCodePrinter 1 (newPrinter env 0))))"

section \<open>The text of a rendered message\<close>

text \<open>
  A field references a map entry when it is message-typed and the export map flags its
  type as a map entry. \<open>memberText\<close> is the text that the loop body writes for a field
  into an empty buffer, \<open>classHead\<close> the opening line of a message, and \<open>memberDecl\<close>
  the declaration that the second half of the loop body prints for a field whose export
  type is \<open>t\<close>.
\<close>

definition referencesMapEntry :: "ExportMap \<Rightarrow> FieldDescriptorProto \<Rightarrow> bool" where
  "referencesMapEntry exportMap field =
     (fieldType field = MESSAGE_TYPE
      \<and> (case getMessage exportMap (drop 1 (fieldTypeName field)) of
            None \<Rightarrow> False
          | Some entry \<Rightarrow> isMapEntry (emMessageOptions entry)))"

definition memberText ::
  "env \<Rightarrow> string \<Rightarrow> ExportMap \<Rightarrow> FileDescriptorProto \<Rightarrow> string \<Rightarrow> FieldDescriptorProto \<Rightarrow> string" where
  "memberText env fileName exportMap fileDescriptor indent field =
     (case printField env fileName exportMap fileDescriptor
             \<lparr>indentStr = indent, outputBuf = []\<rparr> field of
        Inl e \<Rightarrow> []
      | Inr p \<Rightarrow> outputBuf p)"

definition classHead :: "env \<Rightarrow> nat \<Rightarrow> string \<Rightarrow> string" where
  "classHead env indentLevel messageName =
     generateIndent env indentLevel @ ''export class '' @ messageName @ '' {'' @ nl"

definition memberDecl :: "env \<Rightarrow> FileDescriptorProto \<Rightarrow> FieldDescriptorProto \<Rightarrow> string \<Rightarrow> string" where
  "memberDecl env fileDescriptor field t =
     (if fieldLabel field = LABEL_REPEATED then
        fieldName field @ '': Array<''
          @ (if fieldType field = BYTES_TYPE then ''Uint8Array | string'' else t) @ ''>;''
      else if fieldType field = BYTES_TYPE then
        fieldName field @ '': Uint8Array | string;''
      else
        normaliseFieldObjectName env (fieldName field)
          @ (if (fieldType field = MESSAGE_TYPE
                   \<and> (\<not> isProto2 env fileDescriptor \<or> fieldLabel field = LABEL_OPTIONAL))
                \<or> (fieldType field \<noteq> MESSAGE_TYPE \<and> isProto2 env fileDescriptor)
             then ''?'' else [])
          @ '': '' @ t @ '';'')"

section \<open>Resolved references\<close>

text \<open>
  A field has a missing export when its wire type is message or enum and the export map
  has no entry for its full type name without the leading dot. A message resolves when
  printMessage never meets such a field in it: the message is a map entry, or none of its
  fields has a missing export and every nested message resolves.
\<close>

definition missingExport :: "ExportMap \<Rightarrow> FieldDescriptorProto \<Rightarrow> bool" where
  "missingExport exportMap field =
     ((fieldType field = MESSAGE_TYPE
         \<and> getMessage exportMap (drop 1 (fieldTypeName field)) = None)
      \<or> (fieldType field = ENUM_TYPE
         \<and> getEnum exportMap (drop 1 (fieldTypeName field)) = None))"

fun refsResolve :: "ExportMap \<Rightarrow> DescriptorProto \<Rightarrow> bool" where
  "refsResolve exportMap
     (DescriptorProto messageName messageOptions fieldList nestedTypeList enumTypeList
        oneofDeclList extensionList) =
     (isMapEntry messageOptions
      \<or> (list_all (\<lambda>field. \<not> missingExport exportMap field) fieldList
          \<and> list_all (refsResolve exportMap) nestedTypeList))"

definition exportError :: "error \<Rightarrow> bool" where
  "exportError e =
     (case e of NoMessageExport n \<Rightarrow> True | NoEnumExport n \<Rightarrow> True | _ \<Rightarrow> False)"

section \<open>Sample inputs\<close>

text \<open>
  A concrete instance of the helper modules and a small schema, on which the generator can
  be run. The instance resolves a message or enum reference through the export map and
  fails when the reference has no entry; its name normaliser prefixes a few reserved words
  and leaves every other name as it is.
\<close>

definition sampleTypeName :: "FieldType \<Rightarrow> string" where
  "sampleTypeName t =
     (if t = TYPE_STRING then ''string''
      else if t = TYPE_BOOL then ''boolean''
      else if t = TYPE_BYTES then ''Uint8Array''
      else ''number'')"

fun stripProto :: "string \<Rightarrow> string" where
  "stripProto [] = []"
| "stripProto (c # cs) = (if c # cs = ''.proto'' then [] else c # stripProto cs)"

definition sampleNamespace :: "string \<Rightarrow> string" where
  "sampleNamespace filePath =
     map (\<lambda>c. if c = CHR ''.'' \<or> c = CHR ''/'' \<or> c = CHR ''-'' then CHR ''_'' else c)
       (stripProto filePath) @ ''_pb''"

definition sampleReplaceProtoSuffix :: "string \<Rightarrow> string" where
  "sampleReplaceProtoSuffix protoFilePath =
     (if stripProto protoFilePath = protoFilePath then protoFilePath
      else stripProto protoFilePath @ ''_pb'')"

definition sampleWithin :: "string \<Rightarrow> ExportMessageEntry + ExportEnumEntry \<Rightarrow> string" where
  "sampleWithin n exportEntry =
     (let pkg = (case exportEntry of Inl m \<Rightarrow> emPkg m | Inr e \<Rightarrow> eePkg e)
      in if pkg = [] then n else drop (Suc (length pkg)) n)"

definition sampleGetFieldType :: "FieldType \<Rightarrow> string \<Rightarrow> string \<Rightarrow> ExportMap \<Rightarrow> string option" where
  "sampleGetFieldType t typeName currentFileName exportMap =
     (if t = TYPE_MESSAGE then
        (case getMessage exportMap typeName of
           None \<Rightarrow> None
         | Some e \<Rightarrow>
             Some (if emFileName e = currentFileName then sampleWithin typeName (Inl e)
                   else sampleNamespace (emFileName e) @ ''.'' @ sampleWithin typeName (Inl e)))
      else if t = TYPE_ENUM then
        (case getEnum exportMap typeName of
           None \<Rightarrow> None
         | Some e \<Rightarrow>
             Some (if eeFileName e = currentFileName then sampleWithin typeName (Inr e)
                   else sampleNamespace (eeFileName e) @ ''.'' @ sampleWithin typeName (Inr e)))
      else Some (sampleTypeName t))"

definition sampleNormalise :: "string \<Rightarrow> string" where
  "sampleNormalise n =
     (if n \<in> set [''class'', ''default'', ''delete'', ''function'', ''new'', ''package'',
                    ''private'', ''public'', ''return'', ''static'', ''this'', ''var'', ''void'']
      then ''pb_'' @ n else n)"

definition sampleToLower :: "string \<Rightarrow> string" where
  "sampleToLower str =
     map (\<lambda>c. case map_of (zip ''ABCDEFGHIJKLMNOPQRSTUVWXYZ'' ''abcdefghijklmnopqrstuvwxyz'') c of
                None \<Rightarrow> c | Some l \<Rightarrow> l) str"

definition sampleEnv :: env where
  "sampleEnv =
     \<lparr>filePathToPseudoNamespace = sampleNamespace,
      isProto2 = (\<lambda>fd. fdSyntax fd = [] \<or> fdSyntax fd = ''proto2''),
      withinNamespaceFromExportEntry = sampleWithin,
      normaliseFieldObjectName = sampleNormalise,
      replaceProtoSuffix = sampleReplaceProtoSuffix,
      getPathToRoot = (\<lambda>path. ''./''),
      getFieldType = sampleGetFieldType,
      getTypeName = sampleTypeName,
      wellKnownTypesMap = Map.empty,
      printEnum = (\<lambda>e n. Some []),
      printOneOfDecl = (\<lambda>d g n. Some []),
      printExtension = (\<lambda>f m x n. Some []),
      toLowerCase = sampleToLower,
      indentUnit = ''  ''\<rparr>"

definition sampleEntry :: ExportMessageEntry where
  "sampleEntry =
     \<lparr>emPkg = ''pkg'', emFileName = ''svc.proto'', emMessageOptions = Some \<lparr>mapEntry = True\<rparr>,
      emMapFieldOptions = Some \<lparr>mfoKey = (TYPE_STRING, []), mfoValue = (TYPE_BYTES, [])\<rparr>\<rparr>"

definition sampleMap :: ExportMap where
  "sampleMap =
     \<lparr>getMessage = map_of
        [(''pkg.User.TagsEntry'', sampleEntry),
         (''pkg.User'',
          \<lparr>emPkg = ''pkg'', emFileName = ''svc.proto'', emMessageOptions = None,
           emMapFieldOptions = None\<rparr>),
         (''pkg.Stamp'',
          \<lparr>emPkg = ''pkg'', emFileName = ''time.proto'', emMessageOptions = None,
           emMapFieldOptions = None\<rparr>)],
      getEnum = map_of [(''pkg.Role'', \<lparr>eePkg = ''pkg'', eeFileName = ''svc.proto''\<rparr>)]\<rparr>"

definition sampleFile :: "ServiceDescriptorProto list \<Rightarrow> FileDescriptorProto" where
  "sampleFile services =
     \<lparr>fdName = ''svc.proto'', fdPackage = ''pkg'',
      fdDependencyList = [''time.proto'', ''geo.proto''],
      fdServiceList = services, fdSyntax = ''proto3''\<rparr>"

definition sampleField :: "string \<Rightarrow> FieldType \<Rightarrow> string \<Rightarrow> Label \<Rightarrow> FieldDescriptorProto" where
  "sampleField n t typeName l =
     \<lparr>fieldName = n, fieldType = t, fieldTypeName = typeName, fieldLabel = l,
      fieldOneofIndex = None, fieldOptions = None\<rparr>"

definition sampleMessage :: "MessageOptions option \<Rightarrow> FieldDescriptorProto list \<Rightarrow> DescriptorProto" where
  "sampleMessage opts fieldList = DescriptorProto ''User'' opts fieldList [] [] [] []"

definition getUser :: MethodDescriptorProto where
  "getUser =
     \<lparr>mdName = ''GetUser'', mdInputType = ''.pkg.User'', mdOutputType = ''.pkg.Stamp'',
      mdClientStreaming = False, mdServerStreaming = False\<rparr>"

definition watchUsers :: MethodDescriptorProto where
  "watchUsers =
     \<lparr>mdName = ''WatchUsers'', mdInputType = ''.pkg.User'', mdOutputType = ''.pkg.User'',
      mdClientStreaming = False, mdServerStreaming = True\<rparr>"

definition userService :: ServiceDescriptorProto where
  "userService = \<lparr>sdName = ''UserService'', sdMethodList = [getUser, watchUsers]\<rparr>"

definition adminService :: ServiceDescriptorProto where
  "adminService = \<lparr>sdName = ''AdminService'', sdMethodList = []\<rparr>"

definition getUserView :: RPCMethodDescriptor where
  "getUserView =
     \<lparr>nameAsPascalCase = ''GetUser'', nameAsCamelCase = ''getUser'', functionName = ''GetUser'',
      serviceName = ''UserService'', requestStream = False, responseStream = False,
      requestType = ''svc_pb.User'', responseType = ''time_pb.Stamp''\<rparr>"

definition watchUsersView :: RPCMethodDescriptor where
  "watchUsersView =
     \<lparr>nameAsPascalCase = ''WatchUsers'', nameAsCamelCase = ''watchUsers'',
      functionName = ''WatchUsers'', serviceName = ''UserService'', requestStream = False,
      responseStream = True, requestType = ''svc_pb.User'', responseType = ''svc_pb.User''\<rparr>"

section \<open>Properties of the text emitters\<close>

lemma wire_types_distinct [simp]:
  "MESSAGE_TYPE \<noteq> BYTES_TYPE" "BYTES_TYPE \<noteq> MESSAGE_TYPE"
  "ENUM_TYPE \<noteq> BYTES_TYPE" "BYTES_TYPE \<noteq> ENUM_TYPE"
  "MESSAGE_TYPE \<noteq> ENUM_TYPE" "ENUM_TYPE \<noteq> MESSAGE_TYPE"
  by (simp_all add: MESSAGE_TYPE_def BYTES_TYPE_def ENUM_TYPE_def)

lemma throwing_simps [simp]:
  "throwing who None = Inl (CollaboratorError who)"
  "throwing who (Some v) = Inr v"
  by (simp_all add: throwing_def)

lemma cpPrintLn_simps [simp]:
  "depth (cpPrintLn env cp s) = depth cp"
  "indentStr (cpPrinter (cpPrintLn env cp s)) = indentStr (cpPrinter cp)"
  "outputBuf (cpPrinter (cpPrintLn env cp s)) =
     outputBuf (cpPrinter cp) @ indentStr (cpPrinter cp)
       @ concat (replicate (nat (depth cp)) (indentUnit env)) @ s @ nl"
  by (simp_all add: cpPrintLn_def printLn_def)

lemma cpPrintEmptyLn_simps [simp]:
  "depth (cpPrintEmptyLn cp) = depth cp"
  "indentStr (cpPrinter (cpPrintEmptyLn cp)) = indentStr (cpPrinter cp)"
  "outputBuf (cpPrinter (cpPrintEmptyLn cp)) = outputBuf (cpPrinter cp) @ nl"
  by (simp_all add: cpPrintEmptyLn_def printEmptyLn_def)

lemma cpIndent_simps [simp]:
  "depth (cpIndent cp) = depth cp + 1"
  "cpPrinter (cpIndent cp) = cpPrinter cp"
  by (simp_all add: cpIndent_def)

lemma cpDedent_simps [simp]:
  "depth (cpDedent cp) = depth cp - 1"
  "cpPrinter (cpDedent cp) = cpPrinter cp"
  by (simp_all add: cpDedent_def)

lemma sampleEnv_simps [simp]:
  "filePathToPseudoNamespace sampleEnv = sampleNamespace"
  "isProto2 sampleEnv fd = (fdSyntax fd = [] \<or> fdSyntax fd = ''proto2'')"
  "withinNamespaceFromExportEntry sampleEnv = sampleWithin"
  "normaliseFieldObjectName sampleEnv = sampleNormalise"
  "replaceProtoSuffix sampleEnv = sampleReplaceProtoSuffix"
  "getPathToRoot sampleEnv path = ''./''"
  "getFieldType sampleEnv = sampleGetFieldType"
  "getTypeName sampleEnv = sampleTypeName"
  "wellKnownTypesMap sampleEnv = Map.empty"
  "printEnum sampleEnv en lvl = Some []"
  "printOneOfDecl sampleEnv d g lvl = Some []"
  "printExtension sampleEnv f m x lvl = Some []"
  "toLowerCase sampleEnv = sampleToLower"
  "indentUnit sampleEnv = ''  ''"
  by (simp_all add: sampleEnv_def)

lemma sample_names [simp]:
  "sampleNormalise ''name'' = ''name''"
  "sampleNormalise ''seen'' = ''seen''"
  "sampleNormalise ''tags'' = ''tags''"
  "sampleNormalise ''data'' = ''data''"
  "sampleNormalise ''boss'' = ''boss''"
  "sampleNormalise ''GetUser'' = ''GetUser''"
  "sampleNormalise ''WatchUsers'' = ''WatchUsers''"
  "sampleToLower ''G'' = ''g''"
  "sampleToLower ''W'' = ''w''"
  by (simp_all add: sampleNormalise_def sampleToLower_def)

lemma emit_simps [simp]:
  "depth (emit cp text) = depth cp"
  "indentStr (cpPrinter (emit cp text)) = indentStr (cpPrinter cp)"
  "outputBuf (cpPrinter (emit cp text)) = outputBuf (cpPrinter cp) @ text"
  "emit (emit cp a) b = emit cp (a @ b)"
  by (simp_all add: emit_def)

lemma emit_Nil [simp]: "emit cp [] = cp"
  by (simp add: emit_def)

lemma cpPrintLn_emit:
  "cpPrintLn env cp s = emit cp (codeLine env (indentStr (cpPrinter cp)) (depth cp) s)"
  by (simp add: cpPrintLn_def emit_def codeLine_def printLn_def)

lemma cpPrintEmptyLn_emit: "cpPrintEmptyLn cp = emit cp nl"
  by (simp add: cpPrintEmptyLn_def emit_def printEmptyLn_def)

lemma cpIndent_emit: "cpIndent (emit cp text) = emit (cpIndent cp) text"
  by (simp add: cpIndent_def emit_def)

lemma cpDedent_emit: "cpDedent (emit cp text) = emit (cpDedent cp) text"
  by (simp add: cpDedent_def emit_def)

lemma cpDedent_cpIndent [simp]: "cpDedent (cpIndent cp) = cp"
  by (simp add: cpDedent_def cpIndent_def)

lemmas emit_norm = cpPrintLn_emit cpPrintEmptyLn_emit cpIndent_emit cpDedent_emit

section \<open>Properties of printMessage\<close>

lemma resolveField_bytes:
  "fieldType field = BYTES_TYPE \<Longrightarrow>
   \<exists>t. resolveField env fileName exportMap printer field = Inr (ExportType t)"
  by (simp add: resolveField_def Let_def split: option.split JSType.split)

lemma resolveField_ExportType_iff:
  "(\<exists>t. resolveField env fileName exportMap printer field = Inr (ExportType t)) \<longleftrightarrow>
     (if fieldType field = MESSAGE_TYPE then
        (\<exists>entry. getMessage exportMap (drop 1 (fieldTypeName field)) = Some entry
                \<and> \<not> isMapEntry (emMessageOptions entry))
      else if fieldType field = ENUM_TYPE then
        getEnum exportMap (drop 1 (fieldTypeName field)) \<noteq> None
      else True)"
  by (auto simp: resolveField_def Let_def throwing_def
      split: option.splits sum.splits JSType.splits if_splits)

lemma resolveField_missing:
  "fieldType field = MESSAGE_TYPE \<Longrightarrow>
   getMessage exportMap (drop 1 (fieldTypeName field)) = None \<Longrightarrow>
   resolveField env fileName exportMap printer field =
     Inl (NoMessageExport (drop 1 (fieldTypeName field)))"
  "fieldType field = ENUM_TYPE \<Longrightarrow>
   getEnum exportMap (drop 1 (fieldTypeName field)) = None \<Longrightarrow>
   resolveField env fileName exportMap printer field =
     Inl (NoEnumExport (drop 1 (fieldTypeName field)))"
  by (simp_all add: resolveField_def Let_def)

lemma printFields_fails:
  assumes "field \<in> set fieldList"
    and "\<And>printer. \<exists>e. printField env fileName exportMap fileDescriptor printer field = Inl e"
  shows "\<exists>e. printFields env fileName exportMap fileDescriptor st fieldList = Inl e"
  using assms(1)
proof (induction fieldList arbitrary: st)
  case Nil
  then show ?case by simp
next
  case (Cons a rest)
  show ?case
  proof (cases "printField env fileName exportMap fileDescriptor (snd st) a")
    case (Inl e)
    then show ?thesis by simp
  next
    case (Inr p')
    with assms(2) have "a \<noteq> field" by (metis sum.distinct(1))
    with Cons.prems have "field \<in> set rest" by simp
    from Cons.IH [OF this] Inr show ?thesis by simp
  qed
qed

lemma resolveField_exportError:
  assumes "resolveField env fileName exportMap printer field = Inl e" and "exportError e"
  shows "missingExport exportMap field"
  using assms
  by (auto simp: resolveField_def Let_def missingExport_def exportError_def throwing_def
      split: if_splits option.splits sum.splits JSType.splits)

lemma printField_exportError:
  assumes "printField env fileName exportMap fileDescriptor printer field = Inl e" and "exportError e"
  shows "missingExport exportMap field"
proof -
  from assms(1) have "resolveField env fileName exportMap printer field = Inl e"
    by (auto simp: printField_def split: sum.splits resolved.splits)
  then show ?thesis using assms(2) by (rule resolveField_exportError)
qed

lemma printFields_exportError:
  assumes "printFields env fileName exportMap fileDescriptor st fieldList = Inl e" and "exportError e"
  shows "\<exists>field \<in> set fieldList. missingExport exportMap field"
  using assms(1)
proof (induction fieldList arbitrary: st)
  case Nil
  then show ?case by simp
next
  case (Cons a rest)
  show ?case
  proof (cases "printField env fileName exportMap fileDescriptor (snd st) a")
    case (Inl e')
    with Cons.prems have "e' = e" by simp
    with Inl assms(2) have "missingExport exportMap a"
      using printField_exportError by blast
    then show ?thesis by simp
  next
    case (Inr p')
    with Cons.prems Cons.IH show ?thesis by auto
  qed
qed

lemma printEnums_error:
  "printEnums env indentLevel printer enumTypes = Inl e \<Longrightarrow> \<not> exportError e"
  by (induction enumTypes arbitrary: printer)
     (auto simp: throwing_def exportError_def split: option.splits sum.splits)

lemma printOneOfDecls_error:
  "printOneOfDecls env indentLevel groups index printer decls = Inl e \<Longrightarrow> \<not> exportError e"
  by (induction decls arbitrary: printer index)
     (auto simp: throwing_def exportError_def split: option.splits sum.splits)

lemma printExtensions_error:
  "printExtensions env fileName exportMap indentLevel printer exts = Inl e \<Longrightarrow> \<not> exportError e"
  by (induction exts arbitrary: printer)
     (auto simp: throwing_def exportError_def split: option.splits sum.splits)

lemma printMessage_no_exportError:
  "refsResolve exportMap m \<Longrightarrow>
     printMessage env fileName exportMap m indentLevel fileDescriptor = Inl e \<Longrightarrow> \<not> exportError e"
  "list_all (refsResolve exportMap) ms \<Longrightarrow>
     printNested env fileName exportMap indentLevel fileDescriptor printer ms = Inl e \<Longrightarrow> \<not> exportError e"
proof (induction env fileName exportMap m indentLevel fileDescriptor
         and env fileName exportMap indentLevel fileDescriptor printer ms
       rule: printMessage_printNested.induct)
  case (1 env fileName exportMap messageName messageOptions fieldList nestedTypeList enumTypeList
         oneofDeclList extensionList indentLevel fileDescriptor)
  show ?case
  proof
    assume ex: "exportError e"
    from "1.prems"(2) have nm: "\<not> isMapEntry messageOptions"
      by (auto split: if_splits)
    with "1.prems"(1) have fs: "list_all (\<lambda>field. \<not> missingExport exportMap field) fieldList"
      and ns: "list_all (refsResolve exportMap) nestedTypeList" by auto
    let ?p0 = "printLn (newPrinter env indentLevel) (''export class '' @ messageName @ '' {'')"
    show False
    proof (cases "printFields env fileName exportMap fileDescriptor (Map.empty, ?p0) fieldList")
      case (Inl e')
      with "1.prems"(2) nm have "e' = e" by simp
      with Inl ex fs show False
        using printFields_exportError by (fastforce simp: list_all_iff)
    next
      case (Inr st)
      show False
      proof (cases "printNested env fileName exportMap indentLevel fileDescriptor (snd st) nestedTypeList")
        case (Inl e')
        with "1.prems"(2) nm Inr have "e' = e" by simp
        with "1.IH" [OF nm Inr ns] Inl ex show False by simp
      next
        case nested: (Inr p1)
        from "1.prems"(2) nm Inr nested ex show False
          by (auto split: sum.splits dest: printEnums_error printOneOfDecls_error printExtensions_error)
      qed
    qed
  qed
next
  case (2 env fileName exportMap indentLevel fileDescriptor printer)
  then show ?case by simp
next
  case (3 env fileName exportMap indentLevel fileDescriptor printer nested rest)
  show ?case
  proof (cases "printMessage env fileName exportMap nested (indentLevel + 1) fileDescriptor")
    case (Inl e')
    with "3.prems" "3.IH"(1) show ?thesis by auto
  next
    case (Inr msgOutput)
    with "3.prems" "3.IH"(2) show ?thesis by auto
  qed
qed

lemma sample_simps [simp]:
  "fieldName (sampleField n t typeName l) = n"
  "fieldType (sampleField n t typeName l) = t"
  "fieldTypeName (sampleField n t typeName l) = typeName"
  "fieldLabel (sampleField n t typeName l) = l"
  "fieldOneofIndex (sampleField n t typeName l) = None"
  "fieldOptions (sampleField n t typeName l) = None"
  "fdSyntax (sampleFile services) = ''proto3''"
  "fdServiceList (sampleFile services) = services"
  "fdName (sampleFile services) = ''svc.proto''"
  "fdPackage (sampleFile services) = ''pkg''"
  "fdDependencyList (sampleFile services) = [''time.proto'', ''geo.proto'']"
  by (simp_all add: sampleField_def sampleFile_def)

lemma newPrinter_sample [simp]:
  "newPrinter sampleEnv 0 = \<lparr>indentStr = [], outputBuf = []\<rparr>"
  by (simp add: newPrinter_def generateIndent_def)

lemma resolveField_map_entry:
  assumes "fieldType field = MESSAGE_TYPE"
    and "getMessage exportMap (drop 1 (fieldTypeName field)) = Some entry"
    and "isMapEntry (emMessageOptions entry)"
  shows "resolveField env fileName exportMap p field =
     (case emMapFieldOptions entry of
        None \<Rightarrow> Inl TypeError
      | Some mfo \<Rightarrow>
          (case getFieldType env (fst (mfoKey mfo)) (snd (mfoKey mfo)) fileName exportMap of
             None \<Rightarrow> Inl (CollaboratorError ''getFieldType'')
           | Some k \<Rightarrow>
               (case getFieldType env (fst (mfoValue mfo)) (snd (mfoValue mfo)) fileName exportMap of
                  None \<Rightarrow> Inl (CollaboratorError ''getFieldType'')
                | Some v \<Rightarrow>
                    Inr (Returned (printIndentedLn env p
                      (fieldName field @ '': Map<'' @ k @ '', ''
                         @ (if fst (mfoValue mfo) = BYTES_TYPE then ''Uint8Array | string'' else v)
                         @ ''>;''))))))"
  using assms
  by (simp add: resolveField_def Let_def split: option.split)

lemma resolveField_plain_message:
  assumes "fieldType field = MESSAGE_TYPE"
    and "getMessage exportMap (drop 1 (fieldTypeName field)) = Some entry"
    and "\<not> isMapEntry (emMessageOptions entry)"
  shows "\<exists>t. \<forall>p. resolveField env fileName exportMap p field = Inr (ExportType t)"
  using assms by (simp add: resolveField_def Let_def)

lemma resolveField_other:
  assumes "fieldType field \<noteq> MESSAGE_TYPE"
  shows "resolveField env fileName exportMap p field = resolveField env fileName exportMap q field"
    and "resolveField env fileName exportMap p field \<noteq> Inr (Returned p')"
proof -
  show "resolveField env fileName exportMap p field = resolveField env fileName exportMap q field"
    using assms by (simp add: resolveField_def Let_def)
  show "resolveField env fileName exportMap p field \<noteq> Inr (Returned p')"
  proof (cases "fieldType field = ENUM_TYPE")
    case True
    with assms show ?thesis
      by (simp add: resolveField_def Let_def split: option.split)
  next
    case False
    with assms show ?thesis
      by (simp add: resolveField_def Let_def split: option.split JSType.split)
  qed
qed

lemma printMember_decl:
  "printMember env fileDescriptor q field t =
     printIndentedLn env q (memberDecl env fileDescriptor field t)"
  by (auto simp: printMember_def memberDecl_def Let_def)

lemma printField_map_line:
  assumes "printField env fileName exportMap fileDescriptor p field = Inr p'"
    and "referencesMapEntry exportMap field"
  shows "\<exists>entry mfo k v.
           getMessage exportMap (drop 1 (fieldTypeName field)) = Some entry
           \<and> isMapEntry (emMessageOptions entry)
           \<and> emMapFieldOptions entry = Some mfo
           \<and> getFieldType env (fst (mfoKey mfo)) (snd (mfoKey mfo)) fileName exportMap = Some k
           \<and> getFieldType env (fst (mfoValue mfo)) (snd (mfoValue mfo)) fileName exportMap = Some v
           \<and> (\<forall>q. printField env fileName exportMap fileDescriptor q field =
                  Inr (printIndentedLn env q
                    (fieldName field @ '': Map<'' @ k @ '', ''
                       @ (if fst (mfoValue mfo) = BYTES_TYPE then ''Uint8Array | string'' else v)
                       @ ''>;'')))"
proof -
  from assms(2) obtain entry where
    ty: "fieldType field = MESSAGE_TYPE"
    and e: "getMessage exportMap (drop 1 (fieldTypeName field)) = Some entry"
    and me: "isMapEntry (emMessageOptions entry)"
    by (auto simp: referencesMapEntry_def split: option.splits)
  note r = resolveField_map_entry [OF ty e me]
  from assms(1) obtain mfo where mfo: "emMapFieldOptions entry = Some mfo"
    by (cases "emMapFieldOptions entry") (simp_all add: printField_def r)
  from assms(1) mfo obtain k where
    k: "getFieldType env (fst (mfoKey mfo)) (snd (mfoKey mfo)) fileName exportMap = Some k"
    by (cases "getFieldType env (fst (mfoKey mfo)) (snd (mfoKey mfo)) fileName exportMap")
       (simp_all add: printField_def r)
  from assms(1) mfo k obtain v where
    v: "getFieldType env (fst (mfoValue mfo)) (snd (mfoValue mfo)) fileName exportMap = Some v"
    by (cases "getFieldType env (fst (mfoValue mfo)) (snd (mfoValue mfo)) fileName exportMap")
       (simp_all add: printField_def r)
  have "\<forall>q. printField env fileName exportMap fileDescriptor q field =
          Inr (printIndentedLn env q
            (fieldName field @ '': Map<'' @ k @ '', ''
               @ (if fst (mfoValue mfo) = BYTES_TYPE then ''Uint8Array | string'' else v)
               @ ''>;''))"
    by (simp add: printField_def r mfo k v)
  with e me mfo k v show ?thesis by blast
qed

lemma printField_plain_line:
  assumes "printField env fileName exportMap fileDescriptor p field = Inr p'"
    and "\<not> referencesMapEntry exportMap field"
  shows "\<exists>t. \<forall>q. resolveField env fileName exportMap q field = Inr (ExportType t)
              \<and> printField env fileName exportMap fileDescriptor q field =
                  Inr (printMember env fileDescriptor q field t)"
proof -
  have "\<exists>t. \<forall>q. resolveField env fileName exportMap q field = Inr (ExportType t)"
  proof (cases "fieldType field = MESSAGE_TYPE")
    case True
    show ?thesis
    proof (cases "getMessage exportMap (drop 1 (fieldTypeName field))")
      case None
      with True assms(1) show ?thesis
        by (simp add: printField_def resolveField_missing)
    next
      case (Some entry)
      with True assms(2) have "\<not> isMapEntry (emMessageOptions entry)"
        by (simp add: referencesMapEntry_def)
      with True Some show ?thesis by (rule resolveField_plain_message)
    qed
  next
    case False
    from assms(1) obtain r where r: "resolveField env fileName exportMap p field = Inr r"
      by (cases "resolveField env fileName exportMap p field") (simp_all add: printField_def)
    with resolveField_other(2) [OF False] obtain t where "r = ExportType t"
      by (cases r) auto
    with r resolveField_other(1) [OF False] show ?thesis by metis
  qed
  then obtain t where "\<And>q. resolveField env fileName exportMap q field = Inr (ExportType t)"
    by blast
  then show ?thesis by (auto simp: printField_def)
qed

lemma printField_line:
  assumes "printField env fileName exportMap fileDescriptor p field = Inr p'"
  shows "\<exists>line. \<forall>q. printField env fileName exportMap fileDescriptor q field =
                      Inr (printIndentedLn env q line)"
proof (cases "referencesMapEntry exportMap field")
  case True
  from printField_map_line [OF assms True] show ?thesis by blast
next
  case False
  from printField_plain_line [OF assms False] obtain t where
    "\<And>q. printField env fileName exportMap fileDescriptor q field =
            Inr (printMember env fileDescriptor q field t)"
    by blast
  then show ?thesis by (auto simp: printMember_decl)
qed

lemma printField_append:
  assumes "printField env fileName exportMap fileDescriptor p field = Inr p'"
  shows "p' = p\<lparr>outputBuf := outputBuf p
                @ memberText env fileName exportMap fileDescriptor (indentStr p) field\<rparr>"
proof -
  from printField_line [OF assms] obtain line where
    l: "\<And>q. printField env fileName exportMap fileDescriptor q field =
              Inr (printIndentedLn env q line)"
    by blast
  from assms l [of p] have "p' = printIndentedLn env p line" by simp
  then show ?thesis
    by (simp add: memberText_def l printIndentedLn_def)
qed

lemma printFields_append:
  assumes "printFields env fileName exportMap fileDescriptor st fieldList = Inr st'"
  shows "snd st' = (snd st)\<lparr>outputBuf := outputBuf (snd st)
           @ concat (map (memberText env fileName exportMap fileDescriptor (indentStr (snd st)))
                       fieldList)\<rparr>"
  using assms
proof (induction fieldList arbitrary: st)
  case Nil
  then show ?case by auto
next
  case (Cons f rest)
  from Cons.prems obtain p' where
    f: "printField env fileName exportMap fileDescriptor (snd st) f = Inr p'"
    and r: "printFields env fileName exportMap fileDescriptor (pushOneOf (fst st) f, p') rest = Inr st'"
    by (auto split: sum.splits)
  from printField_append [OF f] Cons.IH [OF r] show ?case by simp
qed

lemma printFields_split:
  assumes "printFields env fileName exportMap fileDescriptor st (before @ field # after) = Inr st'"
  shows "\<exists>st1 p2. printFields env fileName exportMap fileDescriptor st before = Inr st1
           \<and> printField env fileName exportMap fileDescriptor (snd st1) field = Inr p2
           \<and> printFields env fileName exportMap fileDescriptor (pushOneOf (fst st1) field, p2) after
               = Inr st'"
  using assms
proof (induction before arbitrary: st)
  case Nil
  then show ?case by (auto split: sum.splits)
next
  case (Cons f rest)
  from Cons.prems obtain p' where
    f: "printField env fileName exportMap fileDescriptor (snd st) f = Inr p'"
    and r: "printFields env fileName exportMap fileDescriptor (pushOneOf (fst st) f, p')
              (rest @ field # after) = Inr st'"
    by (auto split: sum.splits)
  from Cons.IH [OF r] f show ?case by auto
qed

lemma printEnums_append:
  "printEnums env indentLevel p enumTypes = Inr p' \<Longrightarrow>
   \<exists>t. p' = p\<lparr>outputBuf := outputBuf p @ t\<rparr>"
proof (induction enumTypes arbitrary: p)
  case Nil
  then show ?case by (auto intro: exI [of _ "[]"])
next
  case (Cons e rest)
  from Cons.prems obtain str where
    "printEnums env indentLevel (print p str) rest = Inr p'"
    by (auto split: sum.splits)
  from Cons.IH [OF this] show ?case by (auto simp: print_def)
qed

lemma printOneOfDecls_append:
  "printOneOfDecls env indentLevel groups index p decls = Inr p' \<Longrightarrow>
   \<exists>t. p' = p\<lparr>outputBuf := outputBuf p @ t\<rparr>"
proof (induction decls arbitrary: p index)
  case Nil
  then show ?case by (auto intro: exI [of _ "[]"])
next
  case (Cons d rest)
  from Cons.prems obtain str where
    "printOneOfDecls env indentLevel groups (index + 1) (print p str) rest = Inr p'"
    by (auto split: sum.splits)
  from Cons.IH [OF this] show ?case by (auto simp: print_def)
qed

lemma printExtensions_append:
  "printExtensions env fileName exportMap indentLevel p exts = Inr p' \<Longrightarrow>
   \<exists>t. p' = p\<lparr>outputBuf := outputBuf p @ t\<rparr>"
proof (induction exts arbitrary: p)
  case Nil
  then show ?case by (auto intro: exI [of _ "[]"])
next
  case (Cons x rest)
  from Cons.prems obtain str where
    "printExtensions env fileName exportMap indentLevel (print p str) rest = Inr p'"
    by (auto split: sum.splits)
  from Cons.IH [OF this] show ?case by (auto simp: print_def)
qed

lemma printNested_append:
  "printNested env fileName exportMap indentLevel fileDescriptor p nestedTypes = Inr p' \<Longrightarrow>
   \<exists>t. p' = p\<lparr>outputBuf := outputBuf p @ t\<rparr>"
proof (induction nestedTypes arbitrary: p)
  case Nil
  then show ?case by (auto intro: exI [of _ "[]"])
next
  case (Cons n rest)
  from Cons.prems obtain msgOutput where
    "printNested env fileName exportMap indentLevel fileDescriptor
       (if msgOutput \<noteq> [] then print p msgOutput else p) rest = Inr p'"
    by (auto split: sum.splits)
  from Cons.IH [OF this] show ?case
    by (cases "msgOutput = []") (auto simp: print_def)
qed

lemma printMessage_member:
  assumes out: "printMessage env fileName exportMap m indentLevel fileDescriptor = Inr out"
    and m: "\<not> isMapEntry (msgOptions m)"
    and fs: "msgFieldList m = before @ field # after"
  shows "\<exists>p p' rest.
           printField env fileName exportMap fileDescriptor p field = Inr p'
           \<and> out = classHead env indentLevel (msgName m)
                 @ concat (map (memberText env fileName exportMap fileDescriptor
                                  (generateIndent env indentLevel)) before)
                 @ memberText env fileName exportMap fileDescriptor
                     (generateIndent env indentLevel) field
                 @ rest"
proof (cases m)
  case (DescriptorProto messageName messageOptions fieldList nestedTypeList enumTypeList
          oneofDeclList extensionList)
  let ?p0 = "printLn (newPrinter env indentLevel) (''export class '' @ messageName @ '' {'')"
  have p0: "indentStr ?p0 = generateIndent env indentLevel"
       "outputBuf ?p0 = classHead env indentLevel messageName"
    by (simp_all add: printLn_def newPrinter_def classHead_def)
  from out m DescriptorProto obtain st p1 p2 p3 p4 where
    a: "printFields env fileName exportMap fileDescriptor (Map.empty, ?p0) fieldList = Inr st"
    and b: "printNested env fileName exportMap indentLevel fileDescriptor (snd st) nestedTypeList = Inr p1"
    and c: "printEnums env indentLevel p1 enumTypeList = Inr p2"
    and d: "printOneOfDecls env indentLevel (fst st) 0 p2 oneofDeclList = Inr p3"
    and e: "printExtensions env fileName exportMap indentLevel p3 extensionList = Inr p4"
    and o: "out = getOutput (printLn p4 ''}'')"
    by (auto split: sum.splits)
  from a fs DescriptorProto
  have "printFields env fileName exportMap fileDescriptor (Map.empty, ?p0) (before @ field # after) = Inr st"
    by simp
  from printFields_split [OF this] obtain st1 q2 where
    s1: "printFields env fileName exportMap fileDescriptor (Map.empty, ?p0) before = Inr st1"
    and s2: "printField env fileName exportMap fileDescriptor (snd st1) field = Inr q2"
    and s3: "printFields env fileName exportMap fileDescriptor (pushOneOf (fst st1) field, q2) after = Inr st"
    by blast
  let ?mt = "memberText env fileName exportMap fileDescriptor (generateIndent env indentLevel)"
  from printFields_append [OF s1] p0
  have o1: "outputBuf (snd st1) = classHead env indentLevel messageName @ concat (map ?mt before)"
    and i1: "indentStr (snd st1) = generateIndent env indentLevel"
    by simp_all
  from printField_append [OF s2] o1 i1
  have o2: "outputBuf q2 = classHead env indentLevel messageName @ concat (map ?mt before) @ ?mt field"
    and i2: "indentStr q2 = generateIndent env indentLevel"
    by simp_all
  from printFields_append [OF s3] o2 i2
  have o3: "outputBuf (snd st) = classHead env indentLevel messageName @ concat (map ?mt before)
              @ ?mt field @ concat (map ?mt after)"
    by simp
  from printNested_append [OF b] printEnums_append [OF c] printOneOfDecls_append [OF d]
    printExtensions_append [OF e]
  obtain t where "outputBuf p4 = outputBuf (snd st) @ t"
    by auto
  with o o3 have "out = classHead env indentLevel messageName @ concat (map ?mt before)
              @ ?mt field @ (concat (map ?mt after) @ t @ indentStr p4 @ ''}'' @ nl)"
    by (simp add: getOutput_def printLn_def)
  with s2 DescriptorProto show ?thesis by auto
qed

lemma memberText_line:
  assumes "\<forall>q. printField env fileName exportMap fileDescriptor q field =
               Inr (printIndentedLn env q line)"
  shows "memberText env fileName exportMap fileDescriptor indent field =
           indent @ indentUnit env @ line @ nl"
  using assms by (simp add: memberText_def printIndentedLn_def)

lemma printMessage_map_member:
  assumes "printMessage env fileName exportMap m indentLevel fileDescriptor = Inr out"
    and "\<not> isMapEntry (msgOptions m)"
    and "msgFieldList m = before @ field # after"
    and "referencesMapEntry exportMap field"
  shows "\<exists>entry mfo k v rest.
           getMessage exportMap (drop 1 (fieldTypeName field)) = Some entry
           \<and> isMapEntry (emMessageOptions entry)
           \<and> emMapFieldOptions entry = Some mfo
           \<and> getFieldType env (fst (mfoKey mfo)) (snd (mfoKey mfo)) fileName exportMap = Some k
           \<and> getFieldType env (fst (mfoValue mfo)) (snd (mfoValue mfo)) fileName exportMap = Some v
           \<and> out = classHead env indentLevel (msgName m)
                 @ concat (map (memberText env fileName exportMap fileDescriptor
                                  (generateIndent env indentLevel)) before)
                 @ generateIndent env indentLevel @ indentUnit env
                 @ fieldName field @ '': Map<'' @ k @ '', ''
                 @ (if fst (mfoValue mfo) = BYTES_TYPE then ''Uint8Array | string'' else v)
                 @ ''>;'' @ nl @ rest"
proof -
  from printMessage_member [OF assms(1-3)] obtain p p' rest where
    f: "printField env fileName exportMap fileDescriptor p field = Inr p'"
    and o: "out = classHead env indentLevel (msgName m)
                 @ concat (map (memberText env fileName exportMap fileDescriptor
                                  (generateIndent env indentLevel)) before)
                 @ memberText env fileName exportMap fileDescriptor
                     (generateIndent env indentLevel) field
                 @ rest"
    by blast
  from printField_map_line [OF f assms(4)] obtain entry mfo k v where
    e: "getMessage exportMap (drop 1 (fieldTypeName field)) = Some entry"
       "isMapEntry (emMessageOptions entry)"
       "emMapFieldOptions entry = Some mfo"
       "getFieldType env (fst (mfoKey mfo)) (snd (mfoKey mfo)) fileName exportMap = Some k"
       "getFieldType env (fst (mfoValue mfo)) (snd (mfoValue mfo)) fileName exportMap = Some v"
    and l: "\<forall>q. printField env fileName exportMap fileDescriptor q field =
                  Inr (printIndentedLn env q
                    (fieldName field @ '': Map<'' @ k @ '', ''
                       @ (if fst (mfoValue mfo) = BYTES_TYPE then ''Uint8Array | string'' else v)
                       @ ''>;''))"
    by blast
  from o have "out = classHead env indentLevel (msgName m)
                 @ concat (map (memberText env fileName exportMap fileDescriptor
                                  (generateIndent env indentLevel)) before)
                 @ generateIndent env indentLevel @ indentUnit env
                 @ fieldName field @ '': Map<'' @ k @ '', ''
                 @ (if fst (mfoValue mfo) = BYTES_TYPE then ''Uint8Array | string'' else v)
                 @ ''>;'' @ nl @ rest"
    by (simp add: memberText_line [OF l])
  with e show ?thesis by blast
qed

lemma printMessage_plain_member:
  assumes "printMessage env fileName exportMap m indentLevel fileDescriptor = Inr out"
    and "\<not> isMapEntry (msgOptions m)"
    and "msgFieldList m = before @ field # after"
    and "\<not> referencesMapEntry exportMap field"
  shows "\<exists>t rest.
           (\<forall>q. resolveField env fileName exportMap q field = Inr (ExportType t))
           \<and> out = classHead env indentLevel (msgName m)
                 @ concat (map (memberText env fileName exportMap fileDescriptor
                                  (generateIndent env indentLevel)) before)
                 @ generateIndent env indentLevel @ indentUnit env
                 @ memberDecl env fileDescriptor field t @ nl @ rest"
proof -
  from printMessage_member [OF assms(1-3)] obtain p p' rest where
    f: "printField env fileName exportMap fileDescriptor p field = Inr p'"
    and o: "out = classHead env indentLevel (msgName m)
                 @ concat (map (memberText env fileName exportMap fileDescriptor
                                  (generateIndent env indentLevel)) before)
                 @ memberText env fileName exportMap fileDescriptor
                     (generateIndent env indentLevel) field
                 @ rest"
    by blast
  from printField_plain_line [OF f assms(4)] obtain t where
    r: "\<forall>q. resolveField env fileName exportMap q field = Inr (ExportType t)"
    and l: "\<forall>q. printField env fileName exportMap fileDescriptor q field =
                  Inr (printIndentedLn env q (memberDecl env fileDescriptor field t))"
    by (auto simp: printMember_decl)
  from o have "out = classHead env indentLevel (msgName m)
                 @ concat (map (memberText env fileName exportMap fileDescriptor
                                  (generateIndent env indentLevel)) before)
                 @ generateIndent env indentLevel @ indentUnit env
                 @ memberDecl env fileDescriptor field t @ nl @ rest"
    by (simp add: memberText_line [OF l])
  with r show ?thesis by blast
qed

lemma bytes_not_map_entry:
  "fieldType field = BYTES_TYPE \<Longrightarrow> \<not> referencesMapEntry exportMap field"
  by (simp add: referencesMapEntry_def)

lemmas sample_eval =
  sampleMessage_def isMapEntry_def printField_def resolveField_def printMember_def
  MESSAGE_TYPE_def ENUM_TYPE_def BYTES_TYPE_def sampleMap_def sampleEntry_def sampleTypeName_def
  sampleGetFieldType_def sampleWithin_def sampleNamespace_def printLn_def printIndentedLn_def
  getOutput_def

text \<open>
  C5. The loop body never throws on a field of the byte-sequence wire type, whatever its
  options: it prints the union of a binary buffer and a string for a singular field and an
  array of that union for a repeated one. In every message that printMessage renders, the
  member of such a field is that declaration, on its own line after the members of the
  fields before it.
\<close>

theorem bytes_render_as_union:
  "(fieldType field = BYTES_TYPE \<longrightarrow>
      printField env fileName exportMap fileDescriptor printer field =
        Inr (printIndentedLn env printer
               (fieldName field @ '': ''
                  @ (if fieldLabel field = LABEL_REPEATED
                     then ''Array<Uint8Array | string>'' else ''Uint8Array | string'')
                  @ '';'')))
   \<and> (printMessage env fileName exportMap m indentLevel fileDescriptor = Inr out
        \<and> \<not> isMapEntry (msgOptions m)
        \<and> msgFieldList m = before @ field # after
        \<and> fieldType field = BYTES_TYPE
      \<longrightarrow>
      (\<exists>rest. out = classHead env indentLevel (msgName m)
                 @ concat (map (memberText env fileName exportMap fileDescriptor
                                  (generateIndent env indentLevel)) before)
                 @ generateIndent env indentLevel @ indentUnit env
                 @ fieldName field @ '': ''
                 @ (if fieldLabel field = LABEL_REPEATED
                    then ''Array<Uint8Array | string>'' else ''Uint8Array | string'')
                 @ '';'' @ nl @ rest))"
proof (intro conjI impI)
  assume ty: "fieldType field = BYTES_TYPE"
  then obtain t where "resolveField env fileName exportMap printer field = Inr (ExportType t)"
    using resolveField_bytes by blast
  then show "printField env fileName exportMap fileDescriptor printer field =
        Inr (printIndentedLn env printer
               (fieldName field @ '': ''
                  @ (if fieldLabel field = LABEL_REPEATED
                     then ''Array<Uint8Array | string>'' else ''Uint8Array | string'')
                  @ '';''))"
    using ty by (simp add: printField_def printMember_def)
next
  assume a: "printMessage env fileName exportMap m indentLevel fileDescriptor = Inr out
        \<and> \<not> isMapEntry (msgOptions m)
        \<and> msgFieldList m = before @ field # after
        \<and> fieldType field = BYTES_TYPE"
  then have n: "\<not> referencesMapEntry exportMap field"
    by (simp add: bytes_not_map_entry)
  from a printMessage_plain_member [OF _ _ _ n, of env fileName m indentLevel fileDescriptor out before after]
  obtain t rest where
    "out = classHead env indentLevel (msgName m)
                 @ concat (map (memberText env fileName exportMap fileDescriptor
                                  (generateIndent env indentLevel)) before)
                 @ generateIndent env indentLevel @ indentUnit env
                 @ memberDecl env fileDescriptor field t @ nl @ rest"
    by blast
  with a show "\<exists>rest. out = classHead env indentLevel (msgName m)
                 @ concat (map (memberText env fileName exportMap fileDescriptor
                                  (generateIndent env indentLevel)) before)
                 @ generateIndent env indentLevel @ indentUnit env
                 @ fieldName field @ '': ''
                 @ (if fieldLabel field = LABEL_REPEATED
                    then ''Array<Uint8Array | string>'' else ''Uint8Array | string'')
                 @ '';'' @ nl @ rest"
    by (auto simp: memberDecl_def)
qed

theorem bytes_render_as_union_witness:
  "fieldType ((sampleField ''data'' TYPE_BYTES [] LABEL_REPEATED)
                \<lparr>fieldOptions := Some \<lparr>jstype = Some JS_STRING\<rparr>\<rparr>) = BYTES_TYPE
   \<and> \<not> isMapEntry (msgOptions (sampleMessage None
          [sampleField ''name'' TYPE_STRING [] LABEL_OPTIONAL,
           (sampleField ''data'' TYPE_BYTES [] LABEL_REPEATED)
             \<lparr>fieldOptions := Some \<lparr>jstype = Some JS_STRING\<rparr>\<rparr>]))
   \<and> printMessage sampleEnv ''svc.proto'' sampleMap
        (sampleMessage None
          [sampleField ''name'' TYPE_STRING [] LABEL_OPTIONAL,
           (sampleField ''data'' TYPE_BYTES [] LABEL_REPEATED)
             \<lparr>fieldOptions := Some \<lparr>jstype = Some JS_STRING\<rparr>\<rparr>])
        0 (sampleFile []) =
       Inr (''export class User {'' @ nl
            @ ''  name: string;'' @ nl
            @ ''  data: Array<Uint8Array | string>;'' @ nl
            @ ''}'' @ nl)"
proof -
  let ?name = "sampleField ''name'' TYPE_STRING [] LABEL_OPTIONAL"
  let ?data = "(sampleField ''data'' TYPE_BYTES [] LABEL_REPEATED)
                 \<lparr>fieldOptions := Some \<lparr>jstype = Some JS_STRING\<rparr>\<rparr>"
  let ?m = "sampleMessage None [?name, ?data]"
  let ?out = "''export class User {'' @ nl @ ''  name: string;'' @ nl
              @ ''  data: Array<Uint8Array | string>;'' @ nl @ ''}'' @ nl"
  have t: "fieldType ?data = BYTES_TYPE" by (simp add: BYTES_TYPE_def)
  have n: "\<not> isMapEntry (msgOptions ?m)" by (simp add: sampleMessage_def isMapEntry_def)
  have f: "msgFieldList ?m = [?name] @ ?data # []" by (simp add: sampleMessage_def)
  have o: "printMessage sampleEnv ''svc.proto'' sampleMap ?m 0 (sampleFile []) = Inr ?out"
    by (simp add: sample_eval)
  from bytes_render_as_union
    [where field = ?data and env = sampleEnv and fileName = "''svc.proto''"
       and exportMap = sampleMap and fileDescriptor = "sampleFile []"
       and printer = "newPrinter sampleEnv 0" and m = ?m and indentLevel = 0 and out = ?out
       and before = "[?name]" and after = "[]"] t n f o
  show ?thesis by simp
qed

text \<open>
  C1. A message flagged as a map entry is never emitted: printMessage returns the empty
  string for it, and as a nested type it adds nothing to the enclosing message. In every
  message that printMessage renders, a field that references a map entry has recorded key
  and value types that resolve to some \<open>k\<close> and \<open>v\<close>, and its member is
  \<open>name: Map<k, v>\<close>, where the value is the byte union when the recorded value type is
  the byte-sequence wire type.
\<close>

theorem map_entry_rendering:
  "(isMapEntry (msgOptions m) \<longrightarrow>
      printMessage env fileName exportMap m indentLevel fileDescriptor = Inr []
      \<and> printNested env fileName exportMap indentLevel fileDescriptor printer (m # others) =
          printNested env fileName exportMap indentLevel fileDescriptor printer others)
   \<and> (printMessage env fileName exportMap owner indentLevel fileDescriptor = Inr out
        \<and> \<not> isMapEntry (msgOptions owner)
        \<and> msgFieldList owner = before @ field # after
        \<and> referencesMapEntry exportMap field
      \<longrightarrow>
      (\<exists>entry mfo k v rest.
         getMessage exportMap (drop 1 (fieldTypeName field)) = Some entry
         \<and> isMapEntry (emMessageOptions entry)
         \<and> emMapFieldOptions entry = Some mfo
         \<and> getFieldType env (fst (mfoKey mfo)) (snd (mfoKey mfo)) fileName exportMap = Some k
         \<and> getFieldType env (fst (mfoValue mfo)) (snd (mfoValue mfo)) fileName exportMap = Some v
         \<and> out = classHead env indentLevel (msgName owner)
               @ concat (map (memberText env fileName exportMap fileDescriptor
                                (generateIndent env indentLevel)) before)
               @ generateIndent env indentLevel @ indentUnit env
               @ fieldName field @ '': Map<'' @ k @ '', ''
               @ (if fst (mfoValue mfo) = BYTES_TYPE then ''Uint8Array | string'' else v)
               @ ''>;'' @ nl @ rest))"
proof (intro conjI impI)
  assume e: "isMapEntry (msgOptions m)"
  then show "printMessage env fileName exportMap m indentLevel fileDescriptor = Inr []"
    by (cases m) simp
  from e have "printMessage env fileName exportMap m (indentLevel + 1) fileDescriptor = Inr []"
    by (cases m) simp
  then show "printNested env fileName exportMap indentLevel fileDescriptor printer (m # others) =
          printNested env fileName exportMap indentLevel fileDescriptor printer others"
    by simp
next
  assume "printMessage env fileName exportMap owner indentLevel fileDescriptor = Inr out
        \<and> \<not> isMapEntry (msgOptions owner)
        \<and> msgFieldList owner = before @ field # after
        \<and> referencesMapEntry exportMap field"
  then show "\<exists>entry mfo k v rest.
         getMessage exportMap (drop 1 (fieldTypeName field)) = Some entry
         \<and> isMapEntry (emMessageOptions entry)
         \<and> emMapFieldOptions entry = Some mfo
         \<and> getFieldType env (fst (mfoKey mfo)) (snd (mfoKey mfo)) fileName exportMap = Some k
         \<and> getFieldType env (fst (mfoValue mfo)) (snd (mfoValue mfo)) fileName exportMap = Some v
         \<and> out = classHead env indentLevel (msgName owner)
               @ concat (map (memberText env fileName exportMap fileDescriptor
                                (generateIndent env indentLevel)) before)
               @ generateIndent env indentLevel @ indentUnit env
               @ fieldName field @ '': Map<'' @ k @ '', ''
               @ (if fst (mfoValue mfo) = BYTES_TYPE then ''Uint8Array | string'' else v)
               @ ''>;'' @ nl @ rest"
    using printMessage_map_member by blast
qed

theorem map_entry_rendering_witness:
  "isMapEntry (msgOptions (sampleMessage (Some \<lparr>mapEntry = True\<rparr>) []))
   \<and> printMessage sampleEnv ''svc.proto'' sampleMap
        (sampleMessage (Some \<lparr>mapEntry = True\<rparr>) []) 0 (sampleFile []) = Inr []
   \<and> referencesMapEntry sampleMap
        (sampleField ''tags'' TYPE_MESSAGE ''.pkg.User.TagsEntry'' LABEL_REPEATED)
   \<and> \<not> isMapEntry (msgOptions (sampleMessage None
          [sampleField ''name'' TYPE_STRING [] LABEL_OPTIONAL,
           sampleField ''tags'' TYPE_MESSAGE ''.pkg.User.TagsEntry'' LABEL_REPEATED]))
   \<and> printMessage sampleEnv ''svc.proto'' sampleMap
        (sampleMessage None
          [sampleField ''name'' TYPE_STRING [] LABEL_OPTIONAL,
           sampleField ''tags'' TYPE_MESSAGE ''.pkg.User.TagsEntry'' LABEL_REPEATED])
        0 (sampleFile []) =
       Inr (''export class User {'' @ nl
            @ ''  name: string;'' @ nl
            @ ''  tags: Map<string, Uint8Array | string>;'' @ nl
            @ ''}'' @ nl)"
proof -
  let ?name = "sampleField ''name'' TYPE_STRING [] LABEL_OPTIONAL"
  let ?tags = "sampleField ''tags'' TYPE_MESSAGE ''.pkg.User.TagsEntry'' LABEL_REPEATED"
  let ?e = "sampleMessage (Some \<lparr>mapEntry = True\<rparr>) []"
  let ?m = "sampleMessage None [?name, ?tags]"
  let ?out = "''export class User {'' @ nl @ ''  name: string;'' @ nl
              @ ''  tags: Map<string, Uint8Array | string>;'' @ nl @ ''}'' @ nl"
  have e: "isMapEntry (msgOptions ?e)" by (simp add: sampleMessage_def isMapEntry_def)
  have r: "referencesMapEntry sampleMap ?tags"
    by (simp add: referencesMapEntry_def MESSAGE_TYPE_def sampleMap_def sampleEntry_def
        isMapEntry_def)
  have n: "\<not> isMapEntry (msgOptions ?m)" by (simp add: sampleMessage_def isMapEntry_def)
  have f: "msgFieldList ?m = [?name] @ ?tags # []" by (simp add: sampleMessage_def)
  have o: "printMessage sampleEnv ''svc.proto'' sampleMap ?m 0 (sampleFile []) = Inr ?out"
    by (simp add: sample_eval)
  from map_entry_rendering
    [where m = ?e and env = sampleEnv and fileName = "''svc.proto''" and exportMap = sampleMap
       and indentLevel = 0 and fileDescriptor = "sampleFile []"
       and printer = "newPrinter sampleEnv 0" and others = "[]" and owner = ?m and out = ?out
       and before = "[?name]" and field = ?tags and after = "[]"] e r n f o
  show ?thesis by simp
qed

text \<open>
  C9. In every message that printMessage renders, the member of a repeated field is
  \<open>name: Array<t>\<close>, where \<open>t\<close> is the export type that the loop body computes for the
  field and the byte union for a byte-sequence field, unless the field references a map
  entry: then the member is the bare \<open>name: Map<k, v>\<close> of the recorded key and value
  types, not wrapped in an array.
\<close>

theorem repeated_wraps_once:
  assumes "printMessage env fileName exportMap m indentLevel fileDescriptor = Inr out"
    and "\<not> isMapEntry (msgOptions m)"
    and "msgFieldList m = before @ field # after"
    and "fieldLabel field = LABEL_REPEATED"
  shows "(\<not> referencesMapEntry exportMap field \<longrightarrow>
           (\<exists>t rest.
              (\<forall>q. resolveField env fileName exportMap q field = Inr (ExportType t))
              \<and> out = classHead env indentLevel (msgName m)
                    @ concat (map (memberText env fileName exportMap fileDescriptor
                                     (generateIndent env indentLevel)) before)
                    @ generateIndent env indentLevel @ indentUnit env
                    @ fieldName field @ '': Array<''
                    @ (if fieldType field = BYTES_TYPE then ''Uint8Array | string'' else t)
                    @ ''>;'' @ nl @ rest))
         \<and> (referencesMapEntry exportMap field \<longrightarrow>
           (\<exists>entry mfo k v rest.
              getMessage exportMap (drop 1 (fieldTypeName field)) = Some entry
              \<and> isMapEntry (emMessageOptions entry)
              \<and> emMapFieldOptions entry = Some mfo
              \<and> getFieldType env (fst (mfoKey mfo)) (snd (mfoKey mfo)) fileName exportMap = Some k
              \<and> getFieldType env (fst (mfoValue mfo)) (snd (mfoValue mfo)) fileName exportMap
                  = Some v
              \<and> out = classHead env indentLevel (msgName m)
                    @ concat (map (memberText env fileName exportMap fileDescriptor
                                     (generateIndent env indentLevel)) before)
                    @ generateIndent env indentLevel @ indentUnit env
                    @ fieldName field @ '': Map<'' @ k @ '', ''
                    @ (if fst (mfoValue mfo) = BYTES_TYPE then ''Uint8Array | string'' else v)
                    @ ''>;'' @ nl @ rest))"
proof (intro conjI impI)
  assume n: "\<not> referencesMapEntry exportMap field"
  from printMessage_plain_member [OF assms(1-3) n] assms(4)
  show "\<exists>t rest.
              (\<forall>q. resolveField env fileName exportMap q field = Inr (ExportType t))
              \<and> out = classHead env indentLevel (msgName m)
                    @ concat (map (memberText env fileName exportMap fileDescriptor
                                     (generateIndent env indentLevel)) before)
                    @ generateIndent env indentLevel @ indentUnit env
                    @ fieldName field @ '': Array<''
                    @ (if fieldType field = BYTES_TYPE then ''Uint8Array | string'' else t)
                    @ ''>;'' @ nl @ rest"
    by (simp add: memberDecl_def)
next
  assume "referencesMapEntry exportMap field"
  from printMessage_map_member [OF assms(1-3) this]
  show "\<exists>entry mfo k v rest.
              getMessage exportMap (drop 1 (fieldTypeName field)) = Some entry
              \<and> isMapEntry (emMessageOptions entry)
              \<and> emMapFieldOptions entry = Some mfo
              \<and> getFieldType env (fst (mfoKey mfo)) (snd (mfoKey mfo)) fileName exportMap = Some k
              \<and> getFieldType env (fst (mfoValue mfo)) (snd (mfoValue mfo)) fileName exportMap
                  = Some v
              \<and> out = classHead env indentLevel (msgName m)
                    @ concat (map (memberText env fileName exportMap fileDescriptor
                                     (generateIndent env indentLevel)) before)
                    @ generateIndent env indentLevel @ indentUnit env
                    @ fieldName field @ '': Map<'' @ k @ '', ''
                    @ (if fst (mfoValue mfo) = BYTES_TYPE then ''Uint8Array | string'' else v)
                    @ ''>;'' @ nl @ rest" .
qed

theorem repeated_wraps_once_witness:
  "\<not> isMapEntry (msgOptions (sampleMessage None
          [sampleField ''tags'' TYPE_MESSAGE ''.pkg.User.TagsEntry'' LABEL_REPEATED,
           sampleField ''seen'' TYPE_MESSAGE ''.pkg.Stamp'' LABEL_REPEATED]))
   \<and> referencesMapEntry sampleMap
        (sampleField ''tags'' TYPE_MESSAGE ''.pkg.User.TagsEntry'' LABEL_REPEATED)
   \<and> \<not> referencesMapEntry sampleMap
        (sampleField ''seen'' TYPE_MESSAGE ''.pkg.Stamp'' LABEL_REPEATED)
   \<and> printMessage sampleEnv ''svc.proto'' sampleMap
        (sampleMessage None
          [sampleField ''tags'' TYPE_MESSAGE ''.pkg.User.TagsEntry'' LABEL_REPEATED,
           sampleField ''seen'' TYPE_MESSAGE ''.pkg.Stamp'' LABEL_REPEATED])
        0 (sampleFile []) =
       Inr (''export class User {'' @ nl
            @ ''  tags: Map<string, Uint8Array | string>;'' @ nl
            @ ''  seen: Array<time_pb.Stamp>;'' @ nl
            @ ''}'' @ nl)"
proof -
  let ?tags = "sampleField ''tags'' TYPE_MESSAGE ''.pkg.User.TagsEntry'' LABEL_REPEATED"
  let ?seen = "sampleField ''seen'' TYPE_MESSAGE ''.pkg.Stamp'' LABEL_REPEATED"
  let ?m = "sampleMessage None [?tags, ?seen]"
  let ?out = "''export class User {'' @ nl @ ''  tags: Map<string, Uint8Array | string>;'' @ nl
              @ ''  seen: Array<time_pb.Stamp>;'' @ nl @ ''}'' @ nl"
  have n: "\<not> isMapEntry (msgOptions ?m)" by (simp add: sampleMessage_def isMapEntry_def)
  have r: "referencesMapEntry sampleMap ?tags"
    by (simp add: referencesMapEntry_def MESSAGE_TYPE_def sampleMap_def sampleEntry_def
        isMapEntry_def)
  have s: "\<not> referencesMapEntry sampleMap ?seen"
    by (simp add: referencesMapEntry_def MESSAGE_TYPE_def sampleMap_def isMapEntry_def)
  have f1: "msgFieldList ?m = [] @ ?tags # [?seen]" by (simp add: sampleMessage_def)
  have f2: "msgFieldList ?m = [?tags] @ ?seen # []" by (simp add: sampleMessage_def)
  have l1: "fieldLabel ?tags = LABEL_REPEATED" by simp
  have l2: "fieldLabel ?seen = LABEL_REPEATED" by simp
  have o: "printMessage sampleEnv ''svc.proto'' sampleMap ?m 0 (sampleFile []) = Inr ?out"
    by (simp add: sample_eval)
  from repeated_wraps_once [OF o n f1 l1] repeated_wraps_once [OF o n f2 l2] n r s o
  show ?thesis by simp
qed

text \<open>
  C8 (amended). In every message that printMessage renders, the member of a singular
  field that is not of the byte-sequence type and does not reference a map entry is
  declared under the normalised name of the field with the export type \<open>t\<close> that the loop
  body computes, and carries the optional marker exactly when the field is message-typed
  and the file is not proto2 or the label is optional, or the field is not message-typed
  and the file is proto2.
\<close>

theorem optional_marker:
  assumes "printMessage env fileName exportMap m indentLevel fileDescriptor = Inr out"
    and "\<not> isMapEntry (msgOptions m)"
    and "msgFieldList m = before @ field # after"
    and "fieldLabel field \<noteq> LABEL_REPEATED"
    and "fieldType field \<noteq> BYTES_TYPE"
    and "\<not> referencesMapEntry exportMap field"
  shows "\<exists>t rest.
           (\<forall>q. resolveField env fileName exportMap q field = Inr (ExportType t))
           \<and> out = classHead env indentLevel (msgName m)
                 @ concat (map (memberText env fileName exportMap fileDescriptor
                                  (generateIndent env indentLevel)) before)
                 @ generateIndent env indentLevel @ indentUnit env
                 @ normaliseFieldObjectName env (fieldName field)
                 @ (if (fieldType field = MESSAGE_TYPE
                          \<and> (\<not> isProto2 env fileDescriptor \<or> fieldLabel field = LABEL_OPTIONAL))
                       \<or> (fieldType field \<noteq> MESSAGE_TYPE \<and> isProto2 env fileDescriptor)
                    then ''?'' else [])
                 @ '': '' @ t @ '';'' @ nl @ rest"
  using printMessage_plain_member [OF assms(1-3) assms(6)] assms(4,5)
  by (simp add: memberDecl_def)

theorem optional_marker_witness:
  "\<not> isMapEntry (msgOptions (sampleMessage None
          [sampleField ''name'' TYPE_STRING [] LABEL_OPTIONAL,
           sampleField ''seen'' TYPE_MESSAGE ''.pkg.Stamp'' LABEL_REQUIRED]))
   \<and> \<not> referencesMapEntry sampleMap (sampleField ''name'' TYPE_STRING [] LABEL_OPTIONAL)
   \<and> \<not> referencesMapEntry sampleMap
        (sampleField ''seen'' TYPE_MESSAGE ''.pkg.Stamp'' LABEL_REQUIRED)
   \<and> printMessage sampleEnv ''svc.proto'' sampleMap
        (sampleMessage None
          [sampleField ''name'' TYPE_STRING [] LABEL_OPTIONAL,
           sampleField ''seen'' TYPE_MESSAGE ''.pkg.Stamp'' LABEL_REQUIRED])
        0 (sampleFile []) =
       Inr (''export class User {'' @ nl
            @ ''  name: string;'' @ nl
            @ ''  seen?: time_pb.Stamp;'' @ nl
            @ ''}'' @ nl)
   \<and> printMessage sampleEnv ''svc.proto'' sampleMap
        (sampleMessage None
          [sampleField ''name'' TYPE_STRING [] LABEL_OPTIONAL,
           sampleField ''seen'' TYPE_MESSAGE ''.pkg.Stamp'' LABEL_REQUIRED])
        0 ((sampleFile [])\<lparr>fdSyntax := ''proto2''\<rparr>) =
       Inr (''export class User {'' @ nl
            @ ''  name?: string;'' @ nl
            @ ''  seen: time_pb.Stamp;'' @ nl
            @ ''}'' @ nl)"
proof -
  let ?name = "sampleField ''name'' TYPE_STRING [] LABEL_OPTIONAL"
  let ?seen = "sampleField ''seen'' TYPE_MESSAGE ''.pkg.Stamp'' LABEL_REQUIRED"
  let ?m = "sampleMessage None [?name, ?seen]"
  let ?out3 = "''export class User {'' @ nl @ ''  name: string;'' @ nl
               @ ''  seen?: time_pb.Stamp;'' @ nl @ ''}'' @ nl"
  let ?out2 = "''export class User {'' @ nl @ ''  name?: string;'' @ nl
               @ ''  seen: time_pb.Stamp;'' @ nl @ ''}'' @ nl"
  have n: "\<not> isMapEntry (msgOptions ?m)" by (simp add: sampleMessage_def isMapEntry_def)
  have r1: "\<not> referencesMapEntry sampleMap ?name"
    by (simp add: referencesMapEntry_def MESSAGE_TYPE_def)
  have r2: "\<not> referencesMapEntry sampleMap ?seen"
    by (simp add: referencesMapEntry_def MESSAGE_TYPE_def sampleMap_def isMapEntry_def)
  have f1: "msgFieldList ?m = [] @ ?name # [?seen]" by (simp add: sampleMessage_def)
  have f2: "msgFieldList ?m = [?name] @ ?seen # []" by (simp add: sampleMessage_def)
  have l1: "fieldLabel ?name \<noteq> LABEL_REPEATED" by simp
  have l2: "fieldLabel ?seen \<noteq> LABEL_REPEATED" by simp
  have t1: "fieldType ?name \<noteq> BYTES_TYPE" by (simp add: BYTES_TYPE_def)
  have t2: "fieldType ?seen \<noteq> BYTES_TYPE" by (simp add: BYTES_TYPE_def)
  have o3: "printMessage sampleEnv ''svc.proto'' sampleMap ?m 0 (sampleFile []) = Inr ?out3"
    by (simp add: sample_eval)
  have o2: "printMessage sampleEnv ''svc.proto'' sampleMap ?m 0
              ((sampleFile [])\<lparr>fdSyntax := ''proto2''\<rparr>) = Inr ?out2"
    by (simp add: sample_eval)
  from optional_marker [OF o3 n f1 l1 t1 r1] optional_marker [OF o2 n f2 l2 t2 r2] n r1 r2 o3 o2
  show ?thesis by simp
qed

text \<open>
  C8 as stated fails on a singular field that references a map entry: in a proto3 file it
  is message-typed, yet the rendered message declares it as a Map member, which carries no
  optional marker.
\<close>

theorem optional_marker_counterexample:
  "fieldLabel (sampleField ''tags'' TYPE_MESSAGE ''.pkg.User.TagsEntry'' LABEL_OPTIONAL)
     = LABEL_OPTIONAL
   \<and> fieldType (sampleField ''tags'' TYPE_MESSAGE ''.pkg.User.TagsEntry'' LABEL_OPTIONAL)
       = MESSAGE_TYPE
   \<and> \<not> isProto2 sampleEnv (sampleFile [])
   \<and> printMessage sampleEnv ''svc.proto'' sampleMap
        (sampleMessage None
          [sampleField ''tags'' TYPE_MESSAGE ''.pkg.User.TagsEntry'' LABEL_OPTIONAL])
        0 (sampleFile []) =
       Inr (''export class User {'' @ nl
            @ ''  tags: Map<string, Uint8Array | string>;'' @ nl
            @ ''}'' @ nl)
   \<and> CHR ''?'' \<notin> set (''export class User {'' @ nl
                         @ ''  tags: Map<string, Uint8Array | string>;'' @ nl
                         @ ''}'' @ nl)"
  by (simp add: sample_eval nl_def)

text \<open>
  C2 (amended). A field with a missing export makes the loop body throw the matching
  error; printMessage on a message that is not a map entry and has such a field returns an
  error and no text; and when every reference of the message resolves, printMessage never
  returns either of its two missing-export errors.
\<close>

theorem missing_export_aborts:
  "(missingExport exportMap field \<longrightarrow>
      printField env fileName exportMap fileDescriptor printer field =
        Inl (if fieldType field = MESSAGE_TYPE
             then NoMessageExport (drop 1 (fieldTypeName field))
             else NoEnumExport (drop 1 (fieldTypeName field))))
   \<and> (\<not> isMapEntry (msgOptions m) \<and> field \<in> set (msgFieldList m)
        \<and> missingExport exportMap field \<longrightarrow>
      (\<exists>e. printMessage env fileName exportMap m indentLevel fileDescriptor = Inl e))
   \<and> (refsResolve exportMap m \<longrightarrow>
      (\<forall>e. printMessage env fileName exportMap m indentLevel fileDescriptor = Inl e
           \<longrightarrow> \<not> exportError e))"
proof (intro conjI impI allI)
  assume "missingExport exportMap field"
  then show "printField env fileName exportMap fileDescriptor printer field =
        Inl (if fieldType field = MESSAGE_TYPE
             then NoMessageExport (drop 1 (fieldTypeName field))
             else NoEnumExport (drop 1 (fieldTypeName field)))"
    by (auto simp: missingExport_def printField_def resolveField_missing)
next
  assume a: "\<not> isMapEntry (msgOptions m) \<and> field \<in> set (msgFieldList m)
        \<and> missingExport exportMap field"
  then have "\<And>p. \<exists>e. printField env fileName exportMap fileDescriptor p field = Inl e"
    by (auto simp: missingExport_def printField_def resolveField_missing)
  with a obtain e where
    "printFields env fileName exportMap fileDescriptor
       (Map.empty, printLn (newPrinter env indentLevel) (''export class '' @ msgName m @ '' {''))
       (msgFieldList m) = Inl e"
    using printFields_fails by blast
  with a show "\<exists>e. printMessage env fileName exportMap m indentLevel fileDescriptor = Inl e"
    by (cases m) simp
next
  fix e
  assume "refsResolve exportMap m"
    and "printMessage env fileName exportMap m indentLevel fileDescriptor = Inl e"
  then show "\<not> exportError e"
    by (rule printMessage_no_exportError(1))
qed


theorem missing_export_aborts_witness:
  "missingExport sampleMap (sampleField ''boss'' TYPE_MESSAGE ''.pkg.Gone'' LABEL_OPTIONAL)
   \<and> printField sampleEnv ''svc.proto'' sampleMap (sampleFile []) (newPrinter sampleEnv 0)
        (sampleField ''boss'' TYPE_MESSAGE ''.pkg.Gone'' LABEL_OPTIONAL) = Inl (NoMessageExport ''pkg.Gone'')
   \<and> \<not> isMapEntry (msgOptions (sampleMessage None
          [sampleField ''name'' TYPE_STRING [] LABEL_OPTIONAL,
           sampleField ''boss'' TYPE_MESSAGE ''.pkg.Gone'' LABEL_OPTIONAL]))
   \<and> printMessage sampleEnv ''svc.proto'' sampleMap
        (sampleMessage None
          [sampleField ''name'' TYPE_STRING [] LABEL_OPTIONAL,
           sampleField ''boss'' TYPE_MESSAGE ''.pkg.Gone'' LABEL_OPTIONAL])
        0 (sampleFile []) = Inl (NoMessageExport ''pkg.Gone'')
   \<and> refsResolve sampleMap (sampleMessage None [sampleField ''name'' TYPE_STRING [] LABEL_OPTIONAL])
   \<and> printMessage sampleEnv ''svc.proto'' sampleMap
        (sampleMessage None [sampleField ''name'' TYPE_STRING [] LABEL_OPTIONAL])
        0 (sampleFile []) =
       Inr (''export class User {'' @ nl @ ''  name: string;'' @ nl @ ''}'' @ nl)"
proof -
  let ?boss = "sampleField ''boss'' TYPE_MESSAGE ''.pkg.Gone'' LABEL_OPTIONAL"
  let ?name = "sampleField ''name'' TYPE_STRING [] LABEL_OPTIONAL"
  let ?p = "newPrinter sampleEnv 0"
  have m: "missingExport sampleMap ?boss"
    by (simp add: missingExport_def MESSAGE_TYPE_def sampleMap_def)
  have a: "printField sampleEnv ''svc.proto'' sampleMap (sampleFile []) ?p ?boss =
             Inl (NoMessageExport ''pkg.Gone'')"
    using missing_export_aborts
      [where exportMap = sampleMap and field = ?boss and env = sampleEnv and fileName = "''svc.proto''"
         and fileDescriptor = "sampleFile []" and printer = ?p, THEN conjunct1] m
    by (simp add: MESSAGE_TYPE_def)
  have n: "\<not> isMapEntry (msgOptions (sampleMessage None [?name, ?boss]))"
    by (simp add: sampleMessage_def isMapEntry_def)
  have b: "printMessage sampleEnv ''svc.proto'' sampleMap (sampleMessage None [?name, ?boss]) 0
             (sampleFile []) = Inl (NoMessageExport ''pkg.Gone'')"
    by (simp add: sampleMessage_def isMapEntry_def printField_def resolveField_def
        printMember_def MESSAGE_TYPE_def ENUM_TYPE_def BYTES_TYPE_def sampleMap_def
        sampleTypeName_def)
  have r: "refsResolve sampleMap (sampleMessage None [?name])"
    by (simp add: sampleMessage_def missingExport_def MESSAGE_TYPE_def ENUM_TYPE_def)
  have c: "printMessage sampleEnv ''svc.proto'' sampleMap (sampleMessage None [?name]) 0
             (sampleFile []) =
           Inr (''export class User {'' @ nl @ ''  name: string;'' @ nl @ ''}'' @ nl)"
    by (simp add: sampleMessage_def isMapEntry_def printField_def resolveField_def
        printMember_def MESSAGE_TYPE_def ENUM_TYPE_def BYTES_TYPE_def sampleMap_def
        sampleTypeName_def printLn_def printIndentedLn_def getOutput_def)
  from m a n b r c show ?thesis by simp
qed

text \<open>
  C2 as stated fails on a message flagged as a map entry: printMessage returns the empty
  string before it looks at any field, so a field with a missing export raises nothing.
\<close>

theorem missing_export_counterexample:
  "missingExport sampleMap (sampleField ''value'' TYPE_MESSAGE ''.pkg.Gone'' LABEL_OPTIONAL)
   \<and> sampleField ''value'' TYPE_MESSAGE ''.pkg.Gone'' LABEL_OPTIONAL
       \<in> set (msgFieldList (sampleMessage (Some \<lparr>mapEntry = True\<rparr>)
                [sampleField ''value'' TYPE_MESSAGE ''.pkg.Gone'' LABEL_OPTIONAL]))
   \<and> printMessage sampleEnv ''svc.proto'' sampleMap
        (sampleMessage (Some \<lparr>mapEntry = True\<rparr>)
           [sampleField ''value'' TYPE_MESSAGE ''.pkg.Gone'' LABEL_OPTIONAL])
        0 (sampleFile []) = Inr []"
  by (simp add: missingExport_def MESSAGE_TYPE_def sampleMap_def sampleMessage_def isMapEntry_def)

section \<open>Properties of the service view\<close>

lemma someMethod_Inr:
  "someMethod env ns exportMap methods = Inr b \<Longrightarrow>
   b = list_ex (methodReferences env exportMap ns) methods"
  by (induction methods) (auto simp: methodReferences_def Let_def split: sum.splits if_splits)

lemma someService_Inr:
  "someService env ns exportMap services = Inr b \<Longrightarrow>
   b = list_ex (\<lambda>service. list_ex (methodReferences env exportMap ns) (sdMethodList service)) services"
proof (induction services)
  case Nil
  then show ?case by simp
next
  case (Cons s rest)
  then show ?case
    by (auto split: sum.splits if_splits dest: someMethod_Inr)
qed

lemma someMethod_total:
  "list_all (\<lambda>method. case getCallingTypes env method exportMap of Inl e \<Rightarrow> False | Inr c \<Rightarrow> True) methods
   \<Longrightarrow> \<not> isl (someMethod env ns exportMap methods)"
  by (induction methods) (auto simp: Let_def split: sum.splits)

lemma someService_total:
  "list_all (\<lambda>service. list_all (\<lambda>method. case getCallingTypes env method exportMap of
                               Inl e \<Rightarrow> False | Inr c \<Rightarrow> True) (sdMethodList service)) services
   \<Longrightarrow> \<not> isl (someService env ns exportMap services)"
proof (induction services)
  case Nil
  then show ?case by simp
next
  case (Cons s rest)
  then have "\<not> isl (someMethod env ns exportMap (sdMethodList s))"
    using someMethod_total by fastforce
  with Cons show ?case by (auto split: sum.splits)
qed

lemma filterUsed_Inr:
  "filterUsed env sd deps = Inr used \<Longrightarrow>
   used = filter (\<lambda>dependency.
             referencesNamespace env (rsExportMap sd) (rsFileDescriptor sd)
               (filePathToPseudoNamespace env dependency)) deps"
proof (induction deps arbitrary: used)
  case Nil
  then show ?case by simp
next
  case (Cons d rest)
  from Cons.prems obtain b used' where
    b: "isUsed env (rsFileDescriptor sd) (filePathToPseudoNamespace env d) (rsExportMap sd) = Inr b"
    and r: "filterUsed env sd rest = Inr used'"
    and u: "used = (if b then d # used' else used')"
    by (auto split: sum.splits)
  from b have "b = referencesNamespace env (rsExportMap sd) (rsFileDescriptor sd)
                     (filePathToPseudoNamespace env d)"
    unfolding isUsed_def referencesNamespace_def by (rule someService_Inr)
  with Cons.IH [OF r] u show ?case by simp
qed

lemma filterUsed_total:
  "callingTypesResolve env (rsExportMap sd) (rsFileDescriptor sd) \<Longrightarrow>
   \<not> isl (filterUsed env sd deps)"
proof (induction deps)
  case Nil
  then show ?case by simp
next
  case (Cons d rest)
  then have
    "\<not> isl (isUsed env (rsFileDescriptor sd) (filePathToPseudoNamespace env d) (rsExportMap sd))"
    unfolding isUsed_def callingTypesResolve_def using someService_total by blast
  with Cons show ?case by (auto split: sum.splits)
qed

lemmas sample_defs =
  sampleGetFieldType_def sampleWithin_def sampleNamespace_def sampleReplaceProtoSuffix_def
  sampleTypeName_def sampleMap_def sampleEntry_def MESSAGE_TYPE_def

lemma sample_calling_types:
  "getCallingTypes sampleEnv getUser sampleMap =
     Inr \<lparr>ctRequestType = ''svc_pb.User'', ctResponseType = ''time_pb.Stamp''\<rparr>"
  "getCallingTypes sampleEnv watchUsers sampleMap =
     Inr \<lparr>ctRequestType = ''svc_pb.User'', ctResponseType = ''svc_pb.User''\<rparr>"
  by (simp_all add: getCallingTypes_def getUser_def watchUsers_def sample_defs)

lemma sample_views:
  "methodView sampleEnv \<lparr>rdProtoService = userService, rdExportMap = sampleMap\<rparr> getUser =
     Inr getUserView"
  "methodView sampleEnv \<lparr>rdProtoService = userService, rdExportMap = sampleMap\<rparr> watchUsers =
     Inr watchUsersView"
  by (simp_all add: methodView_def sample_calling_types rdName_def)
     (simp_all add: getUser_def watchUsers_def userService_def getUserView_def watchUsersView_def
        rdName_def)

lemma sample_methods:
  "rdMethods sampleEnv \<lparr>rdProtoService = userService, rdExportMap = sampleMap\<rparr> =
     Inr [getUserView, watchUsersView]"
  "rdMethods sampleEnv \<lparr>rdProtoService = adminService, rdExportMap = sampleMap\<rparr> = Inr []"
proof -
  have "sdMethodList userService = [getUser, watchUsers]"
    by (simp add: userService_def)
  then show "rdMethods sampleEnv \<lparr>rdProtoService = userService, rdExportMap = sampleMap\<rparr> =
     Inr [getUserView, watchUsersView]"
    by (simp add: rdMethods_def sample_views)
  show "rdMethods sampleEnv \<lparr>rdProtoService = adminService, rdExportMap = sampleMap\<rparr> = Inr []"
    by (simp add: rdMethods_def adminService_def)
qed

lemma sample_references:
  "referencesNamespace sampleEnv sampleMap (sampleFile [userService, adminService]) ''time_pb''"
  "\<not> referencesNamespace sampleEnv sampleMap (sampleFile [userService, adminService]) ''geo_pb''"
  by (simp_all add: referencesNamespace_def methodReferences_def userService_def adminService_def
      sample_calling_types)

lemma sample_namespaces:
  "sampleNamespace ''svc.proto'' = ''svc_pb''"
  "sampleNamespace ''time.proto'' = ''time_pb''"
  "sampleNamespace ''geo.proto'' = ''geo_pb''"
  "sampleReplaceProtoSuffix ''svc.proto'' = ''svc_pb''"
  "sampleReplaceProtoSuffix ''time.proto'' = ''time_pb''"
  "sampleReplaceProtoSuffix ''time_pb'' = ''time_pb''"
  by (simp_all add: sampleNamespace_def sampleReplaceProtoSuffix_def)

lemma sample_imports:
  "rsImports sampleEnv
     (newRPCServiceDescriptor sampleEnv (sampleFile [userService, adminService]) sampleMap) =
   Inr [\<lparr>impNamespace = ''svc_pb'', impPath = ''./svc_pb''\<rparr>,
        \<lparr>impNamespace = ''time_pb'', impPath = ''./time_pb''\<rparr>]"
  by (simp add: rsImports_def newRPCServiceDescriptor_def isUsed_def userService_def
      adminService_def sample_calling_types sample_namespaces hostProto_def rsFilename_def
      dependencyImport_def)

text \<open>
  C4. Whenever the imports of a file are computed, the list is the file's own entry, of
  its pseudo-namespace and its path, followed by the entries of exactly those dependencies
  whose pseudo-namespace some method of some service references in its request or
  response type, in the order in which the file declares its dependencies; each entry
  carries the pseudo-namespace of its dependency. The list is computed whenever the
  calling types of every method resolve.
\<close>

theorem imports_host_then_used:
  "(rsImports env (newRPCServiceDescriptor env fileDescriptor exportMap) = Inr importList \<longrightarrow>
      importList =
        \<lparr>impNamespace = filePathToPseudoNamespace env (fdName fileDescriptor),
         impPath = getPathToRoot env (fdName fileDescriptor)
                     @ replaceProtoSuffix env (fdName fileDescriptor)\<rparr>
        # map (dependencyImport env (newRPCServiceDescriptor env fileDescriptor exportMap))
            (filter (\<lambda>dependency.
                 referencesNamespace env exportMap fileDescriptor
                   (filePathToPseudoNamespace env dependency))
               (fdDependencyList fileDescriptor)))
   \<and> (callingTypesResolve env exportMap fileDescriptor \<longrightarrow>
        (\<exists>result. rsImports env (newRPCServiceDescriptor env fileDescriptor exportMap) = Inr result))
   \<and> impNamespace (dependencyImport env (newRPCServiceDescriptor env fileDescriptor exportMap)
                      dependency) = filePathToPseudoNamespace env dependency"
proof (intro conjI impI)
  let ?sd = "newRPCServiceDescriptor env fileDescriptor exportMap"
  have sd: "rsExportMap ?sd = exportMap" "rsFileDescriptor ?sd = fileDescriptor"
    by (simp_all add: newRPCServiceDescriptor_def)
  {
    assume "rsImports env ?sd = Inr importList"
    then obtain used where u: "filterUsed env ?sd (fdDependencyList fileDescriptor) = Inr used"
      and i: "importList = hostProto env ?sd # map (dependencyImport env ?sd) used"
      by (auto simp: rsImports_def sd split: sum.splits)
    from filterUsed_Inr [OF u] i
    show "importList =
        \<lparr>impNamespace = filePathToPseudoNamespace env (fdName fileDescriptor),
         impPath = getPathToRoot env (fdName fileDescriptor)
                     @ replaceProtoSuffix env (fdName fileDescriptor)\<rparr>
        # map (dependencyImport env ?sd)
            (filter (\<lambda>dependency.
                 referencesNamespace env exportMap fileDescriptor
                   (filePathToPseudoNamespace env dependency))
               (fdDependencyList fileDescriptor))"
      by (simp add: sd hostProto_def rsFilename_def) (simp add: newRPCServiceDescriptor_def)
  }
  {
    assume "callingTypesResolve env exportMap fileDescriptor"
    then obtain used where "filterUsed env ?sd (fdDependencyList fileDescriptor) = Inr used"
      using filterUsed_total [of env ?sd "fdDependencyList fileDescriptor"]
      by (cases "filterUsed env ?sd (fdDependencyList fileDescriptor)") (auto simp: sd)
    then show "\<exists>result. rsImports env ?sd = Inr result"
      by (simp add: rsImports_def sd)
  }
  show "impNamespace (dependencyImport env ?sd dependency) = filePathToPseudoNamespace env dependency"
    by (simp add: dependencyImport_def Let_def split: option.split)
qed

theorem imports_host_then_used_witness:
  "rsImports sampleEnv
     (newRPCServiceDescriptor sampleEnv (sampleFile [userService, adminService]) sampleMap) =
     Inr [\<lparr>impNamespace = ''svc_pb'', impPath = ''./svc_pb''\<rparr>,
          \<lparr>impNamespace = ''time_pb'', impPath = ''./time_pb''\<rparr>]
   \<and> callingTypesResolve sampleEnv sampleMap (sampleFile [userService, adminService])
   \<and> [\<lparr>impNamespace = ''svc_pb'', impPath = ''./svc_pb''\<rparr>,
       \<lparr>impNamespace = ''time_pb'', impPath = ''./time_pb''\<rparr>] =
      \<lparr>impNamespace = ''svc_pb'', impPath = ''./svc_pb''\<rparr>
      # map (dependencyImport sampleEnv
             (newRPCServiceDescriptor sampleEnv (sampleFile [userService, adminService]) sampleMap))
          (filter (\<lambda>dependency.
               referencesNamespace sampleEnv sampleMap (sampleFile [userService, adminService])
                 (sampleNamespace dependency))
             [''time.proto'', ''geo.proto''])
   \<and> referencesNamespace sampleEnv sampleMap (sampleFile [userService, adminService]) ''time_pb''
   \<and> \<not> referencesNamespace sampleEnv sampleMap (sampleFile [userService, adminService]) ''geo_pb''"
proof -
  let ?fd = "sampleFile [userService, adminService]"
  have r: "callingTypesResolve sampleEnv sampleMap ?fd"
    by (simp add: callingTypesResolve_def userService_def adminService_def sample_calling_types)
  from imports_host_then_used
    [where env = sampleEnv and fileDescriptor = ?fd and exportMap = sampleMap
       and importList = "[\<lparr>impNamespace = ''svc_pb'', impPath = ''./svc_pb''\<rparr>,
                       \<lparr>impNamespace = ''time_pb'', impPath = ''./time_pb''\<rparr>]",
     THEN conjunct1] sample_imports
  have "[\<lparr>impNamespace = ''svc_pb'', impPath = ''./svc_pb''\<rparr>,
         \<lparr>impNamespace = ''time_pb'', impPath = ''./time_pb''\<rparr>] =
        \<lparr>impNamespace = ''svc_pb'', impPath = ''./svc_pb''\<rparr>
        # map (dependencyImport sampleEnv (newRPCServiceDescriptor sampleEnv ?fd sampleMap))
            (filter (\<lambda>dependency.
                 referencesNamespace sampleEnv sampleMap ?fd (sampleNamespace dependency))
               [''time.proto'', ''geo.proto''])"
    by (simp add: sample_namespaces)
  with r sample_imports sample_references show ?thesis by simp
qed

section \<open>Properties of the stub printers\<close>

lemma printUnaryStubMethodTypes_emit:
  "printUnaryStubMethodTypes env cp service method =
     emit cp (unaryStubText env (indentStr (cpPrinter cp)) (depth cp) (functionName method)
                (rdName service) (nameAsPascalCase method) (requestType method)
                (responseType method))"
  by (simp add: printUnaryStubMethodTypes_def unaryStubText_def Let_def emit_norm)

lemma printUnaryStubBatchMethodTypes_emit:
  "printUnaryStubBatchMethodTypes env cp service method =
     emit cp (batchStubText env (indentStr (cpPrinter cp)) (depth cp) (functionName method)
                (rdName service) (nameAsPascalCase method) (requestType method)
                (responseType method))"
  by (simp add: printUnaryStubBatchMethodTypes_def batchStubText_def Let_def emit_norm)

lemma printClientHead_emit:
  "printClientHead env cp =
     cpIndent (emit cp (clientHeadText env (indentStr (cpPrinter cp)) (depth cp)))"
  by (simp add: printClientHead_def clientHeadText_def newCodePrinter_def Let_def emit_norm)

lemma printStubsOfMethod_emit:
  "printStubsOfMethod env service cp method =
     emit cp (if nonStreaming method
              then stubsText env (indentStr (cpPrinter cp)) (depth cp) (rdName service) method
              else [])"
  by (simp add: printStubsOfMethod_def nonStreaming_def stubsText_def
      printUnaryStubMethodTypes_emit printUnaryStubBatchMethodTypes_emit)

lemma foldl_printStubsOfMethod:
  "foldl (printStubsOfMethod env service) cp methods =
     emit cp (concat (map (stubsText env (indentStr (cpPrinter cp)) (depth cp) (rdName service))
                        (filter nonStreaming methods)))"
proof (induction methods arbitrary: cp)
  case Nil
  show ?case by (simp add: emit_def)
next
  case (Cons m rest)
  show ?case by (simp add: Cons.IH) (simp add: printStubsOfMethod_emit)
qed

lemma printServiceStubTypes_text:
  assumes "rdMethods env service = Inr methods"
  shows "printServiceStubTypes env p service =
           Inr (p\<lparr>outputBuf := outputBuf p
                   @ clientHeadText env (indentStr p) 1
                   @ concat (map (stubsText env (indentStr p) 2 (rdName service))
                               (filter nonStreaming methods))
                   @ codeLine env (indentStr p) 1 ''}''\<rparr>)"
  using assms
  by (simp add: printServiceStubTypes_def Let_def foldl_printStubsOfMethod printClientHead_emit
      emit_norm newCodePrinter_def)

lemma methodView_fields:
  assumes "methodView env d method = Inr m"
  shows "functionName m = normaliseFieldObjectName env (mdName method)"
    and "nameAsPascalCase m = mdName method"
    and "serviceName m = sdName (rdProtoService d)"
    and "requestStream m = mdClientStreaming method"
    and "responseStream m = mdServerStreaming method"
    and "\<exists>ct. getCallingTypes env method (rdExportMap d) = Inr ct
              \<and> requestType m = ctRequestType ct \<and> responseType m = ctResponseType ct"
    and "mdName method \<noteq> []"
  using assms
  by (auto simp: methodView_def rdName_def split: sum.splits list.splits)

lemma methodView_cong:
  assumes "rdName d' = rdName d" and "rdExportMap d' = rdExportMap d"
  shows "methodView env d' method = methodView env d method"
  using assms by (simp add: methodView_def split: sum.splits list.splits)

lemma methodViews_filter:
  assumes "methodViews env d ms = Inr mvs"
    and "rdName d' = rdName d" and "rdExportMap d' = rdExportMap d"
  shows "methodViews env d'
           (filter (\<lambda>m. \<not> mdClientStreaming m \<and> \<not> mdServerStreaming m) ms) =
         Inr (filter nonStreaming mvs)"
  using assms(1)
proof (induction ms arbitrary: mvs)
  case Nil
  then show ?case by simp
next
  case (Cons m rest)
  from Cons.prems obtain mv mvs' where
    v: "methodView env d m = Inr mv" and r: "methodViews env d rest = Inr mvs'"
    and e: "mvs = mv # mvs'"
    by (auto split: sum.splits)
  from methodView_fields(4,5) [OF v]
  have "nonStreaming mv = (\<not> mdClientStreaming m \<and> \<not> mdServerStreaming m)"
    by (simp add: nonStreaming_def)
  with Cons.IH [OF r] v e show ?case
    by (simp add: methodView_cong [OF assms(2,3)])
qed

text \<open>
  C6. When the method views of a service are computed, its Client class is the class head,
  then for each method with both streaming flags false one unary stub followed by one
  batch stub, in declaration order, then the closing brace: a method with a streaming flag
  set adds nothing and raises nothing. Removing the streaming methods from the service
  leaves the class unchanged.
\<close>

theorem streaming_methods_skipped:
  "(rdMethods env service = Inr methods \<longrightarrow>
      printServiceStubTypes env p service =
        Inr (p\<lparr>outputBuf := outputBuf p
                @ clientHeadText env (indentStr p) 1
                @ concat (map (\<lambda>method.
                     unaryStubText env (indentStr p) 2 (functionName method) (rdName service)
                       (nameAsPascalCase method) (requestType method) (responseType method)
                     @ batchStubText env (indentStr p) 2 (functionName method) (rdName service)
                         (nameAsPascalCase method) (requestType method) (responseType method))
                   (filter (\<lambda>method. \<not> requestStream method \<and> \<not> responseStream method) methods))
                @ codeLine env (indentStr p) 1 ''}''\<rparr>)
      \<and> printServiceStubTypes env p
          (service\<lparr>rdProtoService := (rdProtoService service)
             \<lparr>sdMethodList :=
                filter (\<lambda>method. \<not> mdClientStreaming method \<and> \<not> mdServerStreaming method)
                  (sdMethodList (rdProtoService service))\<rparr>\<rparr>) =
        printServiceStubTypes env p service)"
proof (intro impI conjI)
  assume m: "rdMethods env service = Inr methods"
  have eq: "(\<lambda>method.
                     unaryStubText env (indentStr p) 2 (functionName method) (rdName service)
                       (nameAsPascalCase method) (requestType method) (responseType method)
                     @ batchStubText env (indentStr p) 2 (functionName method) (rdName service)
                         (nameAsPascalCase method) (requestType method) (responseType method))
            = stubsText env (indentStr p) 2 (rdName service)"
    by (simp add: stubsText_def fun_eq_iff)
  have ns: "(\<lambda>method. \<not> requestStream method \<and> \<not> responseStream method) = nonStreaming"
    by (simp add: nonStreaming_def fun_eq_iff)
  show "printServiceStubTypes env p service =
        Inr (p\<lparr>outputBuf := outputBuf p
                @ clientHeadText env (indentStr p) 1
                @ concat (map (\<lambda>method.
                     unaryStubText env (indentStr p) 2 (functionName method) (rdName service)
                       (nameAsPascalCase method) (requestType method) (responseType method)
                     @ batchStubText env (indentStr p) 2 (functionName method) (rdName service)
                         (nameAsPascalCase method) (requestType method) (responseType method))
                   (filter (\<lambda>method. \<not> requestStream method \<and> \<not> responseStream method) methods))
                @ codeLine env (indentStr p) 1 ''}''\<rparr>)"
    unfolding eq ns by (rule printServiceStubTypes_text [OF m])
  let ?service' = "service\<lparr>rdProtoService := (rdProtoService service)
             \<lparr>sdMethodList :=
                filter (\<lambda>method. \<not> mdClientStreaming method \<and> \<not> mdServerStreaming method)
                  (sdMethodList (rdProtoService service))\<rparr>\<rparr>"
  have n: "rdName ?service' = rdName service" and x: "rdExportMap ?service' = rdExportMap service"
    by (simp_all add: rdName_def)
  from m have "methodViews env service (sdMethodList (rdProtoService service)) = Inr methods"
    by (simp add: rdMethods_def)
  from methodViews_filter [OF this n x]
  have m': "rdMethods env ?service' = Inr (filter nonStreaming methods)"
    by (simp add: rdMethods_def)
  show "printServiceStubTypes env p ?service' = printServiceStubTypes env p service"
    by (simp only: printServiceStubTypes_text [OF m] printServiceStubTypes_text [OF m'] n)
       simp
qed

theorem streaming_methods_skipped_witness:
  "rdMethods sampleEnv \<lparr>rdProtoService = userService, rdExportMap = sampleMap\<rparr> =
     Inr [getUserView, watchUsersView]
   \<and> printServiceStubTypes sampleEnv (newPrinter sampleEnv 0)
        \<lparr>rdProtoService = userService, rdExportMap = sampleMap\<rparr> =
       Inr \<lparr>indentStr = [],
            outputBuf =
              clientHeadText sampleEnv [] 1
              @ unaryStubText sampleEnv [] 2 ''GetUser'' ''UserService'' ''GetUser''
                  ''svc_pb.User'' ''time_pb.Stamp''
              @ batchStubText sampleEnv [] 2 ''GetUser'' ''UserService'' ''GetUser''
                  ''svc_pb.User'' ''time_pb.Stamp''
              @ codeLine sampleEnv [] 1 ''}''\<rparr>
   \<and> printServiceStubTypes sampleEnv (newPrinter sampleEnv 0)
        \<lparr>rdProtoService = userService\<lparr>sdMethodList := [getUser]\<rparr>, rdExportMap = sampleMap\<rparr> =
       printServiceStubTypes sampleEnv (newPrinter sampleEnv 0)
        \<lparr>rdProtoService = userService, rdExportMap = sampleMap\<rparr>"
proof -
  let ?svc = "\<lparr>rdProtoService = userService, rdExportMap = sampleMap\<rparr>"
  have n: "rdName ?svc = ''UserService''"
    by (simp add: rdName_def userService_def)
  have f: "filter (\<lambda>method. \<not> mdClientStreaming method \<and> \<not> mdServerStreaming method)
             (sdMethodList userService) = [getUser]"
    by (simp add: userService_def getUser_def watchUsers_def)
  from streaming_methods_skipped
    [where env = sampleEnv and service = ?svc and methods = "[getUserView, watchUsersView]"
       and p = "newPrinter sampleEnv 0"] sample_methods(1)
  show ?thesis
    by (simp add: n f) (simp add: getUserView_def watchUsersView_def)
qed

text \<open>
  C7 (amended). For a method view \<open>m\<close> of the declared method \<open>method\<close> of \<open>service\<close>,
  the unary stub is named by the name normaliser applied to the declared name, with no
  change of case here, takes \<open>requestMessage\<close> and \<open>options?\<close>, and builds the envelope
  with id 1, method \<open>Service.Method\<close> under the declared names, the request as params and
  version 2.0; the batch stub has the same name followed by \<open>Batch\<close>, takes an array and
  maps each element into an envelope of the same shape.
\<close>

theorem stub_envelopes:
  \<open>methodView env service method = Inr m \<longrightarrow>
     outputBuf (cpPrinter (printUnaryStubMethodTypes env cp service m)) =
       outputBuf (cpPrinter cp)
       @ codeLine env (indentStr (cpPrinter cp)) (depth cp)
           (normaliseFieldObjectName env (mdName method) @ ''('')
       @ codeLine env (indentStr (cpPrinter cp)) (depth cp + 1)
           (''requestMessage: '' @ requestType m @ '','')
       @ codeLine env (indentStr (cpPrinter cp)) (depth cp + 1)
           (''options?: {[key: string]: string}): Observable<'' @ responseType m @ ''> {'')
       @ codeLine env (indentStr (cpPrinter cp)) (depth cp + 1)
           (''let rpcRequest = <JsonRPCRequest>{"id": "1", "method": "''
              @ sdName (rdProtoService service) @ ''.'' @ mdName method
              @ ''", "params": requestMessage, "jsonrpc": "2.0"};'')
       @ codeLine env (indentStr (cpPrinter cp)) (depth cp + 1)
           (''return this.call<'' @ responseType m
              @ ''>(`${this.serviceHost}/rpc`, rpcRequest, options);'')
       @ codeLine env (indentStr (cpPrinter cp)) (depth cp) ''}''
       @ nl
     \<and> outputBuf (cpPrinter (printUnaryStubBatchMethodTypes env cp service m)) =
       outputBuf (cpPrinter cp)
       @ codeLine env (indentStr (cpPrinter cp)) (depth cp)
           (normaliseFieldObjectName env (mdName method) @ ''Batch('')
       @ codeLine env (indentStr (cpPrinter cp)) (depth cp + 1)
           (''requestMessages: '' @ requestType m @ ''[],'')
       @ codeLine env (indentStr (cpPrinter cp)) (depth cp + 1)
           (''options?: {[key: string]: string}): Observable<'' @ responseType m @ ''[]> {'')
       @ codeLine env (indentStr (cpPrinter cp)) (depth cp + 1)
           (''let rpcRequests = requestMessages.map((r) => {return <JsonRPCRequest>{"id": "1", "method": "''
              @ sdName (rdProtoService service) @ ''.'' @ mdName method
              @ ''", "params": r, "jsonrpc": "2.0"};});'')
       @ codeLine env (indentStr (cpPrinter cp)) (depth cp + 1)
           (''return this.callBatch<'' @ responseType m
              @ ''[]>(`${this.serviceHost}/rpc`, rpcRequests, options);'')
       @ codeLine env (indentStr (cpPrinter cp)) (depth cp) ''}''
       @ nl\<close>
proof
  assume v: "methodView env service method = Inr m"
  note f = methodView_fields(1,2) [OF v]
  show \<open>outputBuf (cpPrinter (printUnaryStubMethodTypes env cp service m)) =
       outputBuf (cpPrinter cp)
       @ codeLine env (indentStr (cpPrinter cp)) (depth cp)
           (normaliseFieldObjectName env (mdName method) @ ''('')
       @ codeLine env (indentStr (cpPrinter cp)) (depth cp + 1)
           (''requestMessage: '' @ requestType m @ '','')
       @ codeLine env (indentStr (cpPrinter cp)) (depth cp + 1)
           (''options?: {[key: string]: string}): Observable<'' @ responseType m @ ''> {'')
       @ codeLine env (indentStr (cpPrinter cp)) (depth cp + 1)
           (''let rpcRequest = <JsonRPCRequest>{"id": "1", "method": "''
              @ sdName (rdProtoService service) @ ''.'' @ mdName method
              @ ''", "params": requestMessage, "jsonrpc": "2.0"};'')
       @ codeLine env (indentStr (cpPrinter cp)) (depth cp + 1)
           (''return this.call<'' @ responseType m
              @ ''>(`${this.serviceHost}/rpc`, rpcRequest, options);'')
       @ codeLine env (indentStr (cpPrinter cp)) (depth cp) ''}''
       @ nl
     \<and> outputBuf (cpPrinter (printUnaryStubBatchMethodTypes env cp service m)) =
       outputBuf (cpPrinter cp)
       @ codeLine env (indentStr (cpPrinter cp)) (depth cp)
           (normaliseFieldObjectName env (mdName method) @ ''Batch('')
       @ codeLine env (indentStr (cpPrinter cp)) (depth cp + 1)
           (''requestMessages: '' @ requestType m @ ''[],'')
       @ codeLine env (indentStr (cpPrinter cp)) (depth cp + 1)
           (''options?: {[key: string]: string}): Observable<'' @ responseType m @ ''[]> {'')
       @ codeLine env (indentStr (cpPrinter cp)) (depth cp + 1)
           (''let rpcRequests = requestMessages.map((r) => {return <JsonRPCRequest>{"id": "1", "method": "''
              @ sdName (rdProtoService service) @ ''.'' @ mdName method
              @ ''", "params": r, "jsonrpc": "2.0"};});'')
       @ codeLine env (indentStr (cpPrinter cp)) (depth cp + 1)
           (''return this.callBatch<'' @ responseType m
              @ ''[]>(`${this.serviceHost}/rpc`, rpcRequests, options);'')
       @ codeLine env (indentStr (cpPrinter cp)) (depth cp) ''}''
       @ nl\<close>
    by (simp add: printUnaryStubMethodTypes_emit printUnaryStubBatchMethodTypes_emit
        unaryStubText_def batchStubText_def f rdName_def)
qed

theorem stub_envelopes_witness:
  \<open>methodView sampleEnv \<lparr>rdProtoService = userService, rdExportMap = sampleMap\<rparr> getUser =
     Inr getUserView
   \<and> outputBuf (cpPrinter (printUnaryStubMethodTypes sampleEnv
          (newCodePrinter 0 (newPrinter sampleEnv 0))
          \<lparr>rdProtoService = userService, rdExportMap = sampleMap\<rparr> getUserView)) =
       ''GetUser('' @ nl
       @ ''  requestMessage: svc_pb.User,'' @ nl
       @ ''  options?: {[key: string]: string}): Observable<time_pb.Stamp> {'' @ nl
       @ ''  let rpcRequest = <JsonRPCRequest>{"id": "1", "method": "UserService.GetUser", "params": requestMessage, "jsonrpc": "2.0"};'' @ nl
       @ ''  return this.call<time_pb.Stamp>(`${this.serviceHost}/rpc`, rpcRequest, options);'' @ nl
       @ ''}'' @ nl
       @ nl
   \<and> outputBuf (cpPrinter (printUnaryStubBatchMethodTypes sampleEnv
          (newCodePrinter 0 (newPrinter sampleEnv 0))
          \<lparr>rdProtoService = userService, rdExportMap = sampleMap\<rparr> getUserView)) =
       ''GetUserBatch('' @ nl
       @ ''  requestMessages: svc_pb.User[],'' @ nl
       @ ''  options?: {[key: string]: string}): Observable<time_pb.Stamp[]> {'' @ nl
       @ ''  let rpcRequests = requestMessages.map((r) => {return <JsonRPCRequest>{"id": "1", "method": "UserService.GetUser", "params": r, "jsonrpc": "2.0"};});'' @ nl
       @ ''  return this.callBatch<time_pb.Stamp[]>(`${this.serviceHost}/rpc`, rpcRequests, options);'' @ nl
       @ ''}'' @ nl
       @ nl\<close>
proof -
  let ?svc = "\<lparr>rdProtoService = userService, rdExportMap = sampleMap\<rparr>"
  from stub_envelopes
    [of sampleEnv ?svc getUser getUserView "newCodePrinter 0 (newPrinter sampleEnv 0)"]
    sample_views(1)
  show ?thesis
    by (simp add: newCodePrinter_def codeLine_def getUser_def getUserView_def userService_def)
qed

text \<open>
  C7 as stated fails on the method GetUser: its view carries the lower-camel name getUser,
  but the stubs are named from the declared name, so with a normaliser that leaves GetUser
  as it is they are GetUser and GetUserBatch, not getUser and getUserBatch.
\<close>

theorem stub_envelopes_counterexample:
  "methodView sampleEnv \<lparr>rdProtoService = userService, rdExportMap = sampleMap\<rparr> getUser =
     Inr getUserView
   \<and> nameAsCamelCase getUserView = ''getUser''
   \<and> prefix ''GetUser(''
        (outputBuf (cpPrinter (printUnaryStubMethodTypes sampleEnv
           (newCodePrinter 0 (newPrinter sampleEnv 0))
           \<lparr>rdProtoService = userService, rdExportMap = sampleMap\<rparr> getUserView)))
   \<and> \<not> prefix ''getUser(''
        (outputBuf (cpPrinter (printUnaryStubMethodTypes sampleEnv
           (newCodePrinter 0 (newPrinter sampleEnv 0))
           \<lparr>rdProtoService = userService, rdExportMap = sampleMap\<rparr> getUserView)))
   \<and> prefix ''GetUserBatch(''
        (outputBuf (cpPrinter (printUnaryStubBatchMethodTypes sampleEnv
           (newCodePrinter 0 (newPrinter sampleEnv 0))
           \<lparr>rdProtoService = userService, rdExportMap = sampleMap\<rparr> getUserView)))
   \<and> \<not> prefix ''getUserBatch(''
        (outputBuf (cpPrinter (printUnaryStubBatchMethodTypes sampleEnv
           (newCodePrinter 0 (newPrinter sampleEnv 0))
           \<lparr>rdProtoService = userService, rdExportMap = sampleMap\<rparr> getUserView)))"
  by (simp add: sample_views printUnaryStubMethodTypes_emit printUnaryStubBatchMethodTypes_emit
      unaryStubText_def batchStubText_def codeLine_def newCodePrinter_def getUserView_def)

section \<open>Properties of generateTypescriptDefinition\<close>

lemma printMethodType_emit:
  "printMethodType env cp method =
     emit cp (methodTypeText env (indentStr (cpPrinter cp)) (depth cp) method)"
  by (simp add: printMethodType_def methodTypeText_def newCodePrinter_def Let_def emit_norm)

lemma printMethodStatic_emit:
  "printMethodStatic env cp method =
     emit cp (methodStaticText env (indentStr (cpPrinter cp)) (depth cp) method)"
  by (simp add: printMethodStatic_def methodStaticText_def newCodePrinter_def Let_def emit_norm)

lemma foldl_emit:
  assumes "\<And>cp x. f cp x = emit cp (t (indentStr (cpPrinter cp)) (depth cp) x)"
  shows "foldl f cp xs = emit cp (concat (map (t (indentStr (cpPrinter cp)) (depth cp)) xs))"
  by (induction xs arbitrary: cp) (simp_all add: assms)

lemma printServiceTypes_emit:
  assumes "rdMethods env service = Inr methods"
  shows "printServiceTypes env cp service =
           Inr (emit cp (serviceTypesText env (indentStr (cpPrinter cp)) (depth cp)
                           (rdName service) methods))"
  using assms
  by (simp add: printServiceTypes_def Let_def serviceTypesText_def emit_norm
      foldl_emit [of "printMethodType env", OF printMethodType_emit]
      foldl_emit [of "printMethodStatic env", OF printMethodStatic_emit])

lemma printServices_emit:
  assumes "list_all2 (\<lambda>service methods. rdMethods env service = Inr methods) services methodss"
  shows "printServices env cp services =
           Inr (emit cp (concat (map2 (\<lambda>service methods.
                   serviceTypesText env (indentStr (cpPrinter cp)) (depth cp) (rdName service) methods)
                 services methodss)))"
  using assms
proof (induction services methodss arbitrary: cp rule: list_all2_induct)
  case Nil
  show ?case by simp
next
  case (Cons s ms ss mss)
  show ?case
    by (simp add: printServiceTypes_emit [OF Cons.hyps(1)] Cons.IH)
qed

lemma printStubs_emit:
  assumes "list_all2 (\<lambda>service methods. rdMethods env service = Inr methods) services methodss"
  shows "printStubs env cp services =
           Inr (emit cp (concat (map2 (\<lambda>service methods.
                   clientStubText env (indentStr (cpPrinter cp)) (rdName service) methods @ nl)
                 services methodss)))"
  using assms
proof (induction services methodss arbitrary: cp rule: list_all2_induct)
  case Nil
  show ?case by simp
next
  case (Cons s ms ss mss)
  have "cp\<lparr>cpPrinter := (cpPrinter cp)\<lparr>outputBuf := outputBuf (cpPrinter cp) @ t\<rparr>\<rparr> = emit cp t" for t
    by (simp add: emit_def)
  then show ?case
    by (simp add: printServiceStubTypes_text [OF Cons.hyps(1)] Cons.IH clientStubText_def
        cpPrintEmptyLn_emit)
qed

lemma printHeader_emit:
  "printHeader env cp sd =
     emit cp (codeLine env (indentStr (cpPrinter cp)) (depth cp) (''// package: '' @ rsPackageName sd)
              @ codeLine env (indentStr (cpPrinter cp)) (depth cp) (''// file: '' @ rsFilename sd)
              @ nl)"
  by (simp add: printHeader_def Let_def emit_norm)

lemma printLibraryImports_emit:
  "indentStr (cpPrinter cp) = [] \<Longrightarrow> depth cp = 0 \<Longrightarrow>
   printLibraryImports env cp = emit cp (libraryImportsText env)"
  by (simp add: printLibraryImports_def libraryImportsText_def newCodePrinter_def newPrinter_def
      generateIndent_def Let_def emit_norm)

lemma printEnvelopes_emit:
  "indentStr (cpPrinter cp) = [] \<Longrightarrow> depth cp = 1 \<Longrightarrow>
   printEnvelopes env cp = emit cp (envelopesText env)"
  by (simp add: printEnvelopes_def envelopesText_def newCodePrinter_def newPrinter_def
      generateIndent_def Let_def emit_norm)

lemma foldl_printImport:
  "indentStr (cpPrinter cp) = [] \<Longrightarrow> depth cp = 0 \<Longrightarrow>
   foldl (printImport env) cp importList = emit cp (concat (map (importLine env) importList))"
  by (induction importList arbitrary: cp) (simp_all add: printImport_def importLine_def emit_norm)

text \<open>
  C3. A schema file with no service yields the two header comment lines, the package and
  the file, and one blank line, and nothing after them: no import, no envelope type, no
  namespace.
\<close>

theorem no_service_header_only:
  assumes "fdServiceList fileDescriptor = []"
  shows "generateTypescriptDefinition env fileDescriptor exportMap =
           Inr (''// package: '' @ fdPackage fileDescriptor @ nl
                  @ ''// file: '' @ fdName fileDescriptor @ nl @ nl)"
  using assms
  by (simp add: generateTypescriptDefinition_def rsServices_def newRPCServiceDescriptor_def
      printHeader_def getOutput_def newCodePrinter_def newPrinter_def generateIndent_def
      rsPackageName_def rsFilename_def Let_def)

theorem no_service_header_only_witness:
  "fdServiceList (sampleFile []) = []
   \<and> generateTypescriptDefinition sampleEnv (sampleFile []) sampleMap =
       Inr (''// package: pkg'' @ nl @ ''// file: svc.proto'' @ nl @ nl)"
proof -
  have h: "fdServiceList (sampleFile []) = []"
    by (simp add: sampleFile_def)
  from no_service_header_only [OF h, of sampleEnv sampleMap] h show ?thesis
    by (simp add: sampleFile_def)
qed

text \<open>
  C10. For a file with at least one service whose imports and method views are computed,
  the output is the header, the imports, one line opening the exported namespace named
  after the first declared service, then the envelope types, the aliases and class of
  every service and the Client class of every service, and last the line closing the
  namespace.
\<close>

theorem single_namespace:
  assumes "fdServiceList fileDescriptor = first # others"
    and "rsImports env (newRPCServiceDescriptor env fileDescriptor exportMap) = Inr importList"
    and "list_all2 (\<lambda>service methods.
            rdMethods env \<lparr>rdProtoService = service, rdExportMap = exportMap\<rparr> = Inr methods)
          (fdServiceList fileDescriptor) methodss"
  shows "generateTypescriptDefinition env fileDescriptor exportMap =
           Inr (codeLine env [] 0 (''// package: '' @ fdPackage fileDescriptor)
                @ codeLine env [] 0 (''// file: '' @ fdName fileDescriptor)
                @ nl
                @ concat (map (importLine env) importList)
                @ libraryImportsText env
                @ codeLine env [] 0 (''export namespace '' @ sdName first @ '' {'')
                @ envelopesText env
                @ concat (map2 (\<lambda>service methods.
                     serviceTypesText env [] 1 (sdName service) methods)
                   (fdServiceList fileDescriptor) methodss)
                @ concat (map2 (\<lambda>service methods.
                     clientStubText env [] (sdName service) methods @ nl)
                   (fdServiceList fileDescriptor) methodss)
                @ codeLine env [] 0 ''}'')"
proof -
  let ?sd = "newRPCServiceDescriptor env fileDescriptor exportMap"
  let ?mk = "\<lambda>service. \<lparr>rdProtoService = service, rdExportMap = exportMap\<rparr>"
  have services: "rsServices ?sd = map ?mk (fdServiceList fileDescriptor)"
    by (simp add: rsServices_def newRPCServiceDescriptor_def)
  have views: "list_all2 (\<lambda>service methods. rdMethods env service = Inr methods)
                 (rsServices ?sd) methodss"
    using assms(3) by (simp add: services list_all2_map1)
  have m2: "map2 (\<lambda>service methods. g (rdName service) methods) (rsServices ?sd) methodss =
            map2 (\<lambda>service methods. g (sdName service) methods) (fdServiceList fileDescriptor) methodss"
    for g :: "string \<Rightarrow> RPCMethodDescriptor list \<Rightarrow> string"
    by (simp add: services zip_map1 rdName_def case_prod_unfold)
  have first: "rsServices ?sd = ?mk first # map ?mk others"
    by (simp add: services assms(1))
  have pick: "(case rsServices ?sd of [] \<Rightarrow> u | x # y \<Rightarrow> v x y) = v (?mk first) (map ?mk others)"
    for u :: "error + string" and v
    by (simp add: first)
  show ?thesis
    apply (simp add: generateTypescriptDefinition_def Let_def pick assms(2))
    apply (simp add: printHeader_emit newCodePrinter_def newPrinter_def
        generateIndent_def foldl_printImport printLibraryImports_emit emit_norm
        printEnvelopes_emit printServices_emit [OF views] printStubs_emit [OF views]
        m2 getOutput_def rsPackageName_def rsFilename_def rdName_def)
    apply (simp add: emit_def newRPCServiceDescriptor_def rsServices_def zip_map1
        case_prod_unfold comp_def)
    done
qed

theorem single_namespace_witness:
  "fdServiceList (sampleFile [userService, adminService]) = userService # [adminService]
   \<and> rsImports sampleEnv
        (newRPCServiceDescriptor sampleEnv (sampleFile [userService, adminService]) sampleMap) =
       Inr [\<lparr>impNamespace = ''svc_pb'', impPath = ''./svc_pb''\<rparr>,
            \<lparr>impNamespace = ''time_pb'', impPath = ''./time_pb''\<rparr>]
   \<and> rdMethods sampleEnv \<lparr>rdProtoService = userService, rdExportMap = sampleMap\<rparr> =
       Inr [getUserView, watchUsersView]
   \<and> rdMethods sampleEnv \<lparr>rdProtoService = adminService, rdExportMap = sampleMap\<rparr> = Inr []
   \<and> generateTypescriptDefinition sampleEnv (sampleFile [userService, adminService]) sampleMap =
       Inr (''// package: pkg'' @ nl
            @ ''// file: svc.proto'' @ nl
            @ nl
            @ importLine sampleEnv \<lparr>impNamespace = ''svc_pb'', impPath = ''./svc_pb''\<rparr>
            @ importLine sampleEnv \<lparr>impNamespace = ''time_pb'', impPath = ''./time_pb''\<rparr>
            @ libraryImportsText sampleEnv
            @ ''export namespace UserService {'' @ nl
            @ envelopesText sampleEnv
            @ serviceTypesText sampleEnv [] 1 ''UserService'' [getUserView, watchUsersView]
            @ serviceTypesText sampleEnv [] 1 ''AdminService'' []
            @ clientStubText sampleEnv [] ''UserService'' [getUserView, watchUsersView] @ nl
            @ clientStubText sampleEnv [] ''AdminService'' [] @ nl
            @ ''}'' @ nl)"
proof -
  let ?fd = "sampleFile [userService, adminService]"
  have h1: "fdServiceList ?fd = userService # [adminService]" by simp
  have h3: "list_all2 (\<lambda>service methods.
              rdMethods sampleEnv \<lparr>rdProtoService = service, rdExportMap = sampleMap\<rparr> = Inr methods)
            (fdServiceList ?fd) [[getUserView, watchUsersView], []]"
    by (simp add: sample_methods)
  from single_namespace [OF h1 sample_imports h3] h1 sample_imports sample_methods
  show ?thesis
    by (simp add: codeLine_def userService_def adminService_def)
qed

end
